theory Spec2Isabelle
  imports Complex_Main "HOL-Library.Multiset"
begin

section \<open>The ledger store of \<^verbatim>\<open>data_manager.py\<close>\<close>

text \<open>
  The data manager keeps one delimited file per kind of entry. Every operation reads the
  whole file into a frame, works on the frame and, when it changes anything, writes the
  whole frame back. A frame is modelled as the list of its rows, a row as a record with
  one field per column. Amounts are Python floats; they are modelled as real numbers, so
  rounding is not part of the model. A date is the day number of the calendar day
  (\<^verbatim>\<open>date.toordinal()\<close>), so that adding a \<^verbatim>\<open>Timedelta(days=n)\<close> is adding \<open>n\<close>.
\<close>

type_synonym date = int

record income_row =
  inc_description :: string
  inc_amount :: real
  inc_date :: date

record essential_row =
  ess_category :: string
  ess_expected :: real
  ess_actual :: real

record bill_row =
  bill_name :: string
  amount_due :: real
  due_date :: date
  status :: string

record non_essential_row =
  ne_expense :: string
  ne_amount :: real
  ne_date :: date
  ne_notes :: string

record savings_row =
  sav_deposit :: real
  sav_date :: date

text \<open>
  A backing file either cannot be read as a frame (\<^verbatim>\<open>pd.read_csv\<close> or the date conversion
  raises) or holds rows, in the order in which they were written.
\<close>

datatype 'r csv_file = Unreadable | Rows "'r list"

datatype error = Exception string

text \<open>
  What the environment does with one call of \<^verbatim>\<open>df.to_csv\<close>: the call succeeds and the file
  holds the frame, or it raises and the file is left as the failed call left it. The
  source opens the file for writing and does nothing more after a failure, so the state of
  the file after a failed write is the environment's and is carried by the outcome.
\<close>

datatype 'r write_outcome = WriteOk | WriteFails "'r csv_file"

record store =
  income_csv :: "income_row csv_file"
  essentials_csv :: "essential_row csv_file"
  bills_csv :: "bill_row csv_file"
  non_essentials_csv :: "non_essential_row csv_file"
  savings_csv :: "savings_row csv_file"
  writes :: "string list"

text \<open>The field \<open>writes\<close> lists the files on which \<^verbatim>\<open>to_csv\<close> was called, oldest first.\<close>

definition read_csv :: "'r csv_file \<Rightarrow> error + 'r list" where
  "read_csv f = (case f of Unreadable \<Rightarrow> Inl (Exception ''cannot parse file'') | Rows rs \<Rightarrow> Inr rs)"

definition to_csv :: "'r write_outcome \<Rightarrow> 'r list \<Rightarrow> (error + unit) \<times> 'r csv_file" where
  "to_csv w df =
     (case w of
        WriteOk \<Rightarrow> (Inr (), Rows df)
      | WriteFails left \<Rightarrow> (Inl (Exception ''cannot write file''), left))"

text \<open>
  \<^verbatim>\<open>df.sort_values(col)\<close> and \<^verbatim>\<open>df.sort_values(col, ascending=False)\<close>. Rows with equal keys
  keep their order (pandas reverses, sorts and reverses again for a descending sort).
\<close>

definition sort_values :: "('r \<Rightarrow> date) \<Rightarrow> 'r list \<Rightarrow> 'r list" where
  "sort_values col df = sort_key col df"

definition sort_values_desc :: "('r \<Rightarrow> date) \<Rightarrow> 'r list \<Rightarrow> 'r list" where
  "sort_values_desc col df = rev (sort_key col (rev df))"

text \<open>
  The body shared by the five \<^verbatim>\<open>get_*_data\<close> methods: read, sort when the frame is not
  empty, and on any exception print a message and return the empty frame. The second
  component is what the call printed.
\<close>

definition load_csv :: "string \<Rightarrow> ('r list \<Rightarrow> 'r list) \<Rightarrow> 'r csv_file \<Rightarrow> 'r list \<times> string list" where
  "load_csv what sort_rows f =
     (case read_csv f of
        Inr df \<Rightarrow> (if df \<noteq> [] then sort_rows df else df, [])
      | Inl (Exception e) \<Rightarrow> ([], [''Error loading '' @ what @ '' data: '' @ e]))"

definition load_income :: "store \<Rightarrow> income_row list \<times> string list" where
  "load_income st = load_csv ''income'' (sort_values_desc inc_date) (income_csv st)"

definition load_essentials :: "store \<Rightarrow> essential_row list \<times> string list" where
  "load_essentials st = load_csv ''essentials'' (\<lambda>df. df) (essentials_csv st)"

definition load_bills :: "store \<Rightarrow> bill_row list \<times> string list" where
  "load_bills st = load_csv ''bills'' (sort_values due_date) (bills_csv st)"

definition load_non_essentials :: "store \<Rightarrow> non_essential_row list \<times> string list" where
  "load_non_essentials st =
     load_csv ''non-essentials'' (sort_values_desc ne_date) (non_essentials_csv st)"

definition load_savings :: "store \<Rightarrow> savings_row list \<times> string list" where
  "load_savings st = load_csv ''savings'' (sort_values_desc sav_date) (savings_csv st)"

definition get_income_data :: "store \<Rightarrow> income_row list" where
  "get_income_data st = fst (load_income st)"

definition get_essentials_data :: "store \<Rightarrow> essential_row list" where
  "get_essentials_data st = fst (load_essentials st)"

definition get_bills_data :: "store \<Rightarrow> bill_row list" where
  "get_bills_data st = fst (load_bills st)"

definition get_non_essentials_data :: "store \<Rightarrow> non_essential_row list" where
  "get_non_essentials_data st = fst (load_non_essentials st)"

definition get_savings_data :: "store \<Rightarrow> savings_row list" where
  "get_savings_data st = fst (load_savings st)"

text \<open>
  \<^verbatim>\<open>df.drop(df.index[index])\<close>: the labels of a frame that was just read are distinct, so
  exactly the row at the position goes.
\<close>

definition drop_index :: "'r list \<Rightarrow> int \<Rightarrow> 'r list" where
  "drop_index df index = take (nat index) df @ drop (Suc (nat index)) df"

text \<open>
  The end of every writing method: the \<^verbatim>\<open>to_csv\<close> call inside \<^verbatim>\<open>try\<close>, and the handler
  that raises a new exception with the method's own prefix.
\<close>

definition write_back :: "string \<Rightarrow> 'r write_outcome \<Rightarrow> 'r list \<Rightarrow> (error + unit) \<times> 'r csv_file" where
  "write_back prefix w df =
     (case to_csv w df of
        (Inr u, f) \<Rightarrow> (Inr (), f)
      | (Inl (Exception e), f) \<Rightarrow> (Inl (Exception (prefix @ e)), f))"

subsection \<open>Adding\<close>

definition add_income ::
  "store \<Rightarrow> income_row write_outcome \<Rightarrow> string \<Rightarrow> real \<Rightarrow> date \<Rightarrow> (error + unit) \<times> store" where
  "add_income st w description amount date =
     (let df = get_income_data st;
          new_row = \<lparr>inc_description = description, inc_amount = amount, inc_date = date\<rparr>;
          (r, f) = write_back ''Error adding income: '' w (df @ [new_row])
      in (r, st\<lparr>income_csv := f, writes := writes st @ [''income.csv'']\<rparr>))"

definition add_essential ::
  "store \<Rightarrow> essential_row write_outcome \<Rightarrow> string \<Rightarrow> real \<Rightarrow> real \<Rightarrow> (error + unit) \<times> store" where
  "add_essential st w category expected actual =
     (let df = get_essentials_data st;
          new_row = \<lparr>ess_category = category, ess_expected = expected, ess_actual = actual\<rparr>;
          (r, f) = write_back ''Error adding essential: '' w (df @ [new_row])
      in (r, st\<lparr>essentials_csv := f, writes := writes st @ [''essentials.csv'']\<rparr>))"

definition add_bill ::
  "store \<Rightarrow> bill_row write_outcome \<Rightarrow> string \<Rightarrow> real \<Rightarrow> date \<Rightarrow> string \<Rightarrow> (error + unit) \<times> store" where
  "add_bill st w name due_amount due new_status =
     (let df = get_bills_data st;
          new_row = \<lparr>bill_name = name, amount_due = due_amount, due_date = due, status = new_status\<rparr>;
          (r, f) = write_back ''Error adding bill: '' w (df @ [new_row])
      in (r, st\<lparr>bills_csv := f, writes := writes st @ [''bills.csv'']\<rparr>))"

definition add_non_essential ::
  "store \<Rightarrow> non_essential_row write_outcome \<Rightarrow> string \<Rightarrow> real \<Rightarrow> date \<Rightarrow> string \<Rightarrow> (error + unit) \<times> store" where
  "add_non_essential st w expense amount date notes =
     (let df = get_non_essentials_data st;
          new_row = \<lparr>ne_expense = expense, ne_amount = amount, ne_date = date, ne_notes = notes\<rparr>;
          (r, f) = write_back ''Error adding non-essential: '' w (df @ [new_row])
      in (r, st\<lparr>non_essentials_csv := f, writes := writes st @ [''non_essentials.csv'']\<rparr>))"

definition add_savings ::
  "store \<Rightarrow> savings_row write_outcome \<Rightarrow> real \<Rightarrow> date \<Rightarrow> (error + unit) \<times> store" where
  "add_savings st w deposit date =
     (let df = get_savings_data st;
          new_row = \<lparr>sav_deposit = deposit, sav_date = date\<rparr>;
          (r, f) = write_back ''Error adding savings: '' w (df @ [new_row])
      in (r, st\<lparr>savings_csv := f, writes := writes st @ [''savings.csv'']\<rparr>))"

subsection \<open>Deleting and toggling by position\<close>

definition delete_income :: "store \<Rightarrow> income_row write_outcome \<Rightarrow> int \<Rightarrow> (error + unit) \<times> store" where
  "delete_income st w index =
     (let df = get_income_data st
      in if 0 \<le> index \<and> index < int (length df)
         then (let (r, f) = write_back ''Error deleting income: '' w (drop_index df index)
               in (r, st\<lparr>income_csv := f, writes := writes st @ [''income.csv'']\<rparr>))
         else (Inr (), st))"

definition delete_essential :: "store \<Rightarrow> essential_row write_outcome \<Rightarrow> int \<Rightarrow> (error + unit) \<times> store" where
  "delete_essential st w index =
     (let df = get_essentials_data st
      in if 0 \<le> index \<and> index < int (length df)
         then (let (r, f) = write_back ''Error deleting essential: '' w (drop_index df index)
               in (r, st\<lparr>essentials_csv := f, writes := writes st @ [''essentials.csv'']\<rparr>))
         else (Inr (), st))"

definition delete_bill :: "store \<Rightarrow> bill_row write_outcome \<Rightarrow> int \<Rightarrow> (error + unit) \<times> store" where
  "delete_bill st w index =
     (let df = get_bills_data st
      in if 0 \<le> index \<and> index < int (length df)
         then (let (r, f) = write_back ''Error deleting bill: '' w (drop_index df index)
               in (r, st\<lparr>bills_csv := f, writes := writes st @ [''bills.csv'']\<rparr>))
         else (Inr (), st))"

definition delete_non_essential ::
  "store \<Rightarrow> non_essential_row write_outcome \<Rightarrow> int \<Rightarrow> (error + unit) \<times> store" where
  "delete_non_essential st w index =
     (let df = get_non_essentials_data st
      in if 0 \<le> index \<and> index < int (length df)
         then (let (r, f) = write_back ''Error deleting non-essential: '' w (drop_index df index)
               in (r, st\<lparr>non_essentials_csv := f, writes := writes st @ [''non_essentials.csv'']\<rparr>))
         else (Inr (), st))"

definition delete_savings :: "store \<Rightarrow> savings_row write_outcome \<Rightarrow> int \<Rightarrow> (error + unit) \<times> store" where
  "delete_savings st w index =
     (let df = get_savings_data st
      in if 0 \<le> index \<and> index < int (length df)
         then (let (r, f) = write_back ''Error deleting savings: '' w (drop_index df index)
               in (r, st\<lparr>savings_csv := f, writes := writes st @ [''savings.csv'']\<rparr>))
         else (Inr (), st))"

definition toggle_status :: "bill_row list \<Rightarrow> int \<Rightarrow> bill_row list" where
  "toggle_status df index =
     (let current_status = status (df ! nat index);
          new_status = (if current_status = ''Unpaid'' then ''Paid'' else ''Unpaid'')
      in df[nat index := (df ! nat index)\<lparr>status := new_status\<rparr>])"

definition toggle_bill_status :: "store \<Rightarrow> bill_row write_outcome \<Rightarrow> int \<Rightarrow> (error + unit) \<times> store" where
  "toggle_bill_status st w index =
     (let df = get_bills_data st
      in if 0 \<le> index \<and> index < int (length df)
         then (let (r, f) = write_back ''Error toggling bill status: '' w (toggle_status df index)
               in (r, st\<lparr>bills_csv := f, writes := writes st @ [''bills.csv'']\<rparr>))
         else (Inr (), st))"

subsection \<open>The order of rows with equal keys\<close>

text \<open>
  \<^verbatim>\<open>df.sort_values(col)\<close> asks numpy for the positions that sort the column (its default
  kind is quicksort) and takes the rows at these positions. The library promises that the
  keys come out in order and nothing about rows with equal keys. \<open>sort_values\<close> above
  keeps such rows in the order of the frame. Where a result depends on their order, the
  sort of positions is an argument \<open>argsort\<close>, of which only the promise is used:
  \<open>argsort_ok\<close>. \<open>stable_argsort\<close> is the sort that gives \<open>sort_values\<close>;
  \<open>ties_reversed\<close> is another one that keeps the promise.
\<close>

definition argsort_ok :: "(date list \<Rightarrow> nat list) \<Rightarrow> bool" where
  "argsort_ok argsort \<longleftrightarrow>
     (\<forall>keys. mset (argsort keys) = mset [0..<length keys]
            \<and> sorted (map (\<lambda>i. keys ! i) (argsort keys)))"

definition sort_values_with :: "(date list \<Rightarrow> nat list) \<Rightarrow> ('r \<Rightarrow> date) \<Rightarrow> 'r list \<Rightarrow> 'r list" where
  "sort_values_with argsort col df = map (\<lambda>i. df ! i) (argsort (map col df))"

definition stable_argsort :: "date list \<Rightarrow> nat list" where
  "stable_argsort keys = sort_key (\<lambda>i. keys ! i) [0..<length keys]"

definition ties_reversed :: "date list \<Rightarrow> nat list" where
  "ties_reversed keys = sort_key (\<lambda>i. keys ! i) (rev [0..<length keys])"

text \<open>\<^verbatim>\<open>get_bills_data\<close> and \<^verbatim>\<open>toggle_bill_status\<close> once more, with the sort as an argument.\<close>

definition get_bills_data_with :: "(date list \<Rightarrow> nat list) \<Rightarrow> store \<Rightarrow> bill_row list" where
  "get_bills_data_with argsort st =
     fst (load_csv ''bills'' (sort_values_with argsort due_date) (bills_csv st))"

definition toggle_bill_status_with ::
  "(date list \<Rightarrow> nat list) \<Rightarrow> store \<Rightarrow> bill_row write_outcome \<Rightarrow> int \<Rightarrow> (error + unit) \<times> store" where
  "toggle_bill_status_with argsort st w index =
     (let df = get_bills_data_with argsort st
      in if 0 \<le> index \<and> index < int (length df)
         then (let (r, f) = write_back ''Error toggling bill status: '' w (toggle_status df index)
               in (r, st\<lparr>bills_csv := f, writes := writes st @ [''bills.csv'']\<rparr>))
         else (Inr (), st))"

section \<open>Derived figures\<close>

text \<open>
  Python raises \<^verbatim>\<open>ZeroDivisionError\<close> when a number is divided by zero. The model keeps that
  branch: a division by a variable is \<open>truediv\<close>, and a computation that divides returns a
  sum, the exception on the left.
\<close>

definition ZeroDivisionError :: error where
  "ZeroDivisionError = Exception ''division by zero''"

definition truediv :: "real \<Rightarrow> real \<Rightarrow> error + real" where
  "truediv a b = (if b = 0 then Inl ZeroDivisionError else Inr (a / b))"

definition then_do :: "error + 'a \<Rightarrow> ('a \<Rightarrow> error + 'b) \<Rightarrow> error + 'b" where
  "then_do m f = (case m of Inl e \<Rightarrow> Inl e | Inr x \<Rightarrow> f x)"

subsection \<open>The analytics page of \<^verbatim>\<open>main.py\<close>\<close>

text \<open>
  \<^verbatim>\<open>show_analytics\<close> computes its figures between the widget calls. The figures are modelled,
  the widgets are not. \<^verbatim>\<open>format(x, ".1f")\<close> prints the decimal numeral with one digit after
  the point that is nearest to \<open>x\<close>, a tie going to the even digit.
\<close>

fun string_of_nat :: "nat \<Rightarrow> string" where
  "string_of_nat n =
     (if n < 10 then [char_of (48 + n)]
      else string_of_nat (n div 10) @ [char_of (48 + n mod 10)])"

declare string_of_nat.simps [simp del]

definition round_half_even :: "real \<Rightarrow> int" where
  "round_half_even y =
     (let f = \<lfloor>y\<rfloor>; d = y - of_int f
      in if d < 1 / 2 then f else if 1 / 2 < d then f + 1 else if even f then f else f + 1)"

definition format_1f :: "real \<Rightarrow> string" where
  "format_1f x =
     (let n = nat (round_half_even (\<bar>x\<bar> * 10));
          digits = string_of_nat (n div 10) @ ''.'' @ string_of_nat (n mod 10)
      in if x < 0 then ''-'' @ digits else digits)"

definition variance :: "real \<Rightarrow> real \<Rightarrow> error + real" where
  "variance actual target =
     (if target > 0 then then_do (truediv (actual - target) target) (\<lambda>q. Inr (q * 100))
      else Inr 0)"

definition variance_label :: "real \<Rightarrow> string" where
  "variance_label v = (if v > 0 then ''Over'' else ''Under'')"

definition variance_text :: "real \<Rightarrow> string" where
  "variance_text v = variance_label v @ '' by '' @ format_1f \<bar>v\<bar> @ ''%''"

text \<open>
  The local variables of \<^verbatim>\<open>show_analytics\<close>. The field \<open>m_total_income\<close> is the local
  \<^verbatim>\<open>total_income\<close>; the plain name is the key of the allocations below.
\<close>

record metrics =
  m_total_income :: real
  total_essentials :: real
  total_non_essentials :: real
  total_savings :: real
  total_expenses :: real
  target_essentials :: real
  target_non_essentials :: real
  target_savings :: real
  savings_rate :: real
  expense_ratio :: real

definition key_metrics :: "store \<Rightarrow> error + metrics" where
  "key_metrics st =
     (let income_data = get_income_data st;
          essentials_data = get_essentials_data st;
          non_essentials_data = get_non_essentials_data st;
          savings_data = get_savings_data st;
          ti = (if income_data \<noteq> [] then sum_list (map inc_amount income_data) else 0);
          te = (if essentials_data \<noteq> [] then sum_list (map ess_actual essentials_data) else 0);
          tn = (if non_essentials_data \<noteq> [] then sum_list (map ne_amount non_essentials_data) else 0);
          ts = (if savings_data \<noteq> [] then sum_list (map sav_deposit savings_data) else 0);
          tx = te + tn
      in then_do (if ti > 0 then then_do (truediv ts ti) (\<lambda>q. Inr (q * 100)) else Inr 0) (\<lambda>sr.
         then_do (if ti > 0 then then_do (truediv tx ti) (\<lambda>q. Inr (q * 100)) else Inr 0) (\<lambda>er.
         Inr \<lparr>m_total_income = ti, total_essentials = te, total_non_essentials = tn,
              total_savings = ts, total_expenses = tx,
              target_essentials = ti * 0.5, target_non_essentials = ti * 0.3,
              target_savings = ti * 0.2, savings_rate = sr, expense_ratio = er\<rparr>)))"

text \<open>
  The loop over the three categories assigns \<^verbatim>\<open>variance\<close> in every round, and the score
  below the loop reads the variable: it holds the value of the last round, the variance
  of the savings against their target. The loop over the literal list is unrolled.
\<close>

definition adherence_loop :: "metrics \<Rightarrow> error + (string list \<times> real)" where
  "adherence_loop m =
     then_do (variance (total_essentials m) (target_essentials m)) (\<lambda>v1.
     then_do (variance (total_non_essentials m) (target_non_essentials m)) (\<lambda>v2.
     then_do (variance (total_savings m) (target_savings m)) (\<lambda>v3.
     Inr ([variance_text v1, variance_text v2, variance_text v3], v3))))"

subsection \<open>The health score, with the numbers of pandas\<close>

text \<open>
  The figures above are exact numbers and serve the texts of the variance. The score is
  sensitive to the range of the numbers, so for it the totals are computed as pandas
  computes them. A column that pandas reads has the dtype int64 when every cell
  is written as an integer and float64 otherwise. The frames of this model hold the
  numbers and not their spelling, so the dtypes of the four summed columns are an
  argument. The sum of an int64 column wraps around at \<open>2 ^ 63\<close>, and so does the
  arithmetic of two int64 values. A float64 is a finite number, an infinity or NaN; an
  operation whose exact result lies beyond the largest double gives an infinity, and the
  undefined combinations of infinities give NaN. The rounding of finite results and the
  sign of a zero are not modelled.
\<close>

datatype dtype = Int64 | Float64

datatype float64 = Finite real | PosInf | NegInf | NaN

datatype number = I64 int | F64 float64

record dtypes =
  income_dtype :: dtype
  essentials_dtype :: dtype
  non_essentials_dtype :: dtype
  savings_dtype :: dtype

definition max_float64 :: real where
  "max_float64 = (2 ^ 53 - 1) * 2 ^ 971"

definition float64_of :: "real \<Rightarrow> float64" where
  "float64_of x =
     (if max_float64 < x then PosInf else if x < - max_float64 then NegInf else Finite x)"

definition wrap_int64 :: "int \<Rightarrow> int" where
  "wrap_int64 n = (n + 2 ^ 63) mod 2 ^ 64 - 2 ^ 63"

fun fneg :: "float64 \<Rightarrow> float64" where
  "fneg (Finite a) = Finite (- a)"
| "fneg PosInf = NegInf"
| "fneg NegInf = PosInf"
| "fneg NaN = NaN"

fun fabs :: "float64 \<Rightarrow> float64" where
  "fabs (Finite a) = Finite \<bar>a\<bar>"
| "fabs PosInf = PosInf"
| "fabs NegInf = PosInf"
| "fabs NaN = NaN"

fun fadd :: "float64 \<Rightarrow> float64 \<Rightarrow> float64" where
  "fadd (Finite a) (Finite b) = float64_of (a + b)"
| "fadd NaN y = NaN"
| "fadd x NaN = NaN"
| "fadd PosInf NegInf = NaN"
| "fadd NegInf PosInf = NaN"
| "fadd PosInf y = PosInf"
| "fadd NegInf y = NegInf"
| "fadd (Finite a) y = y"

definition fsub :: "float64 \<Rightarrow> float64 \<Rightarrow> float64" where
  "fsub x y = fadd x (fneg y)"

fun fmul :: "float64 \<Rightarrow> float64 \<Rightarrow> float64" where
  "fmul (Finite a) (Finite b) = float64_of (a * b)"
| "fmul NaN y = NaN"
| "fmul x NaN = NaN"
| "fmul (Finite a) y = (if a = 0 then NaN else if 0 < a then y else fneg y)"
| "fmul x (Finite b) = (if b = 0 then NaN else if 0 < b then x else fneg x)"
| "fmul x y = (if x = y then PosInf else NegInf)"

text \<open>
  The division of numpy floats gives an infinity or NaN on a zero divisor, with a warning,
  and does not raise. Every division of the page has a numpy divisor: a total that is the
  integer 0 of Python, the total of an empty frame, fails the guard before the division.
\<close>

fun fdiv :: "float64 \<Rightarrow> float64 \<Rightarrow> float64" where
  "fdiv (Finite a) (Finite b) =
     (if b = 0 then (if a = 0 then NaN else if 0 < a then PosInf else NegInf)
      else float64_of (a / b))"
| "fdiv NaN y = NaN"
| "fdiv x NaN = NaN"
| "fdiv (Finite a) y = Finite 0"
| "fdiv x (Finite b) = (if 0 \<le> b then x else fneg x)"
| "fdiv x y = NaN"

fun flt :: "float64 \<Rightarrow> float64 \<Rightarrow> bool" where
  "flt (Finite a) (Finite b) = (a < b)"
| "flt NaN y = False"
| "flt x NaN = False"
| "flt x PosInf = (x \<noteq> PosInf)"
| "flt NegInf y = (y \<noteq> NegInf)"
| "flt x y = False"

text \<open>
  \<^verbatim>\<open>min(a, b)\<close> and \<^verbatim>\<open>max(a, b)\<close> of Python keep the first argument unless the second is
  smaller, or greater; a comparison with NaN is false.
\<close>

definition py_min :: "float64 \<Rightarrow> float64 \<Rightarrow> float64" where
  "py_min a b = (if flt b a then b else a)"

definition py_max :: "float64 \<Rightarrow> float64 \<Rightarrow> float64" where
  "py_max a b = (if flt a b then b else a)"

text \<open>
  The sum of a column. The cells of an int64 column are integers. The floats are added
  from the first row on; another order gives the same unless the partial sums overflow.
\<close>

definition series_sum :: "dtype \<Rightarrow> real list \<Rightarrow> number" where
  "series_sum dt xs =
     (case dt of
        Int64 \<Rightarrow> I64 (wrap_int64 (sum_list (map floor xs)))
      | Float64 \<Rightarrow> F64 (foldl fadd (Finite 0) (map float64_of xs)))"

fun as_float :: "number \<Rightarrow> float64" where
  "as_float (I64 n) = Finite (of_int n)"
| "as_float (F64 x) = x"

fun n_add :: "number \<Rightarrow> number \<Rightarrow> number" where
  "n_add (I64 a) (I64 b) = I64 (wrap_int64 (a + b))"
| "n_add x y = F64 (fadd (as_float x) (as_float y))"

fun n_times :: "number \<Rightarrow> int \<Rightarrow> number" where
  "n_times (I64 a) k = I64 (wrap_int64 (a * k))"
| "n_times (F64 x) k = F64 (fmul x (Finite (of_int k)))"

definition positive :: "number \<Rightarrow> bool" where
  "positive x = flt (Finite 0) (as_float x)"

text \<open>
  The figures of \<^verbatim>\<open>show_analytics\<close> that the score reads. A total of an empty frame is
  the integer 0 of Python, which adds and compares as an int64 zero does.
\<close>

record figures =
  income_sum :: number
  essentials_sum :: number
  non_essentials_sum :: number
  savings_sum :: number
  expenses_sum :: number
  savings_goal :: float64
  savings_percent :: float64
  expense_percent :: float64

definition ratio_percent :: "number \<Rightarrow> number \<Rightarrow> float64" where
  "ratio_percent part whole =
     (if positive whole then fmul (fdiv (as_float part) (as_float whole)) (Finite 100)
      else Finite 0)"

definition key_figures :: "dtypes \<Rightarrow> store \<Rightarrow> figures" where
  "key_figures dts st =
     (let income_data = get_income_data st;
          essentials_data = get_essentials_data st;
          non_essentials_data = get_non_essentials_data st;
          savings_data = get_savings_data st;
          ti = (if income_data \<noteq> [] then series_sum (income_dtype dts) (map inc_amount income_data)
                else I64 0);
          te = (if essentials_data \<noteq> []
                then series_sum (essentials_dtype dts) (map ess_actual essentials_data) else I64 0);
          tn = (if non_essentials_data \<noteq> []
                then series_sum (non_essentials_dtype dts) (map ne_amount non_essentials_data)
                else I64 0);
          ts = (if savings_data \<noteq> [] then series_sum (savings_dtype dts) (map sav_deposit savings_data)
                else I64 0);
          tx = n_add te tn
      in \<lparr>income_sum = ti, essentials_sum = te, non_essentials_sum = tn, savings_sum = ts,
          expenses_sum = tx, savings_goal = fmul (as_float ti) (Finite 0.2),
          savings_percent = ratio_percent ts ti, expense_percent = ratio_percent tx ti\<rparr>)"

text \<open>
  The variance of one round of the category loop, on floats. The score reads the
  variable after the loop, which holds the value of the last of the three rounds, that
  of the savings against their target.
\<close>

definition variance64 :: "float64 \<Rightarrow> float64 \<Rightarrow> float64" where
  "variance64 spent goal =
     (if flt (Finite 0) goal then fmul (fdiv (fsub spent goal) goal) (Finite 100) else Finite 0)"

definition last_variance :: "figures \<Rightarrow> float64" where
  "last_variance m =
     last (map (\<lambda>(spent, goal). variance64 spent goal)
       [(as_float (essentials_sum m), fmul (as_float (income_sum m)) (Finite 0.5)),
        (as_float (non_essentials_sum m), fmul (as_float (income_sum m)) (Finite 0.3)),
        (as_float (savings_sum m), savings_goal m)])"

record score_components =
  savings_rate_score :: float64
  budget_adherence_score :: float64
  emergency_fund_score :: float64
  expense_control_score :: float64

definition emergency_fund :: "figures \<Rightarrow> float64" where
  "emergency_fund m =
     (if positive (expenses_sum m)
      then py_min (fmul (fdiv (as_float (savings_sum m)) (as_float (n_times (expenses_sum m) 3)))
                     (Finite 25)) (Finite 25)
      else Finite 0)"

definition health_score_components :: "dtypes \<Rightarrow> store \<Rightarrow> score_components" where
  "health_score_components dts st =
     (let m = key_figures dts st;
          v = last_variance m
      in \<lparr>savings_rate_score =
            py_min (fmul (fdiv (savings_percent m) (Finite 20)) (Finite 25)) (Finite 25),
          budget_adherence_score =
            py_max (Finite 0) (fsub (Finite 25) (fmul (fdiv (fabs v) (Finite 10)) (Finite 25))),
          emergency_fund_score = emergency_fund m,
          expense_control_score =
            (if flt (Finite 80) (expense_percent m)
             then py_max (Finite 0)
                    (fsub (Finite 25)
                       (fmul (fdiv (fsub (expense_percent m) (Finite 80)) (Finite 20)) (Finite 25)))
             else Finite 25)\<rparr>)"

definition total_score :: "score_components \<Rightarrow> float64" where
  "total_score c =
     foldl fadd (Finite 0)
       [savings_rate_score c, budget_adherence_score c, emergency_fund_score c,
        expense_control_score c]"

definition health_score :: "dtypes \<Rightarrow> store \<Rightarrow> float64" where
  "health_score dts st = total_score (health_score_components dts st)"

text \<open>
  Ranges of floats, to state where a score lies: a finite float between two bounds, a
  float that is not negative, where the positive infinity counts, and a float that is at
  most 25, where the negative infinity counts.
\<close>

fun between :: "real \<Rightarrow> real \<Rightarrow> float64 \<Rightarrow> bool" where
  "between lo hi (Finite a) = (lo \<le> a \<and> a \<le> hi)"
| "between lo hi x = False"

fun nonneg64 :: "float64 \<Rightarrow> bool" where
  "nonneg64 (Finite a) = (0 \<le> a)"
| "nonneg64 PosInf = True"
| "nonneg64 x = False"

fun upto25 :: "float64 \<Rightarrow> bool" where
  "upto25 (Finite a) = (a \<le> 25)"
| "upto25 NegInf = True"
| "upto25 x = False"

subsection \<open>The budget summary of \<^verbatim>\<open>data_manager.py\<close>\<close>

record allocations =
  total_income :: real
  essentials_target :: real
  non_essentials_target :: real
  savings_target :: real

definition calculate_budget_allocations :: "store \<Rightarrow> allocations" where
  "calculate_budget_allocations st =
     (let income_data = get_income_data st;
          ti = (if income_data \<noteq> [] then sum_list (map inc_amount income_data) else 0)
      in \<lparr>total_income = ti, essentials_target = ti * 0.5,
          non_essentials_target = ti * 0.3, savings_target = ti * 0.2\<rparr>)"

record actuals =
  essentials_actual :: real
  non_essentials_actual :: real
  savings_actual :: real

definition calculate_actual_spending :: "store \<Rightarrow> actuals" where
  "calculate_actual_spending st =
     (let essentials_data = get_essentials_data st;
          non_essentials_data = get_non_essentials_data st;
          savings_data = get_savings_data st
      in \<lparr>essentials_actual =
            (if essentials_data \<noteq> [] then sum_list (map ess_actual essentials_data) else 0),
          non_essentials_actual =
            (if non_essentials_data \<noteq> [] then sum_list (map ne_amount non_essentials_data) else 0),
          savings_actual =
            (if savings_data \<noteq> [] then sum_list (map sav_deposit savings_data) else 0)\<rparr>)"

text \<open>One entry of the summary, and the summary: the keys of the two dictionaries.\<close>

record category_summary =
  target :: real
  actual :: real
  difference :: real
  percentage :: real

record budget_summary =
  essentials :: category_summary
  non_essentials :: category_summary
  savings :: category_summary
  summary_total_income :: real

definition percentage_of :: "real \<Rightarrow> real \<Rightarrow> error + real" where
  "percentage_of spent income_total =
     (if income_total > 0 then then_do (truediv spent income_total) (\<lambda>q. Inr (q * 100))
      else Inr 0)"

definition get_budget_summary :: "store \<Rightarrow> error + budget_summary" where
  "get_budget_summary st =
     (let allocs = calculate_budget_allocations st;
          acts = calculate_actual_spending st
      in then_do (percentage_of (essentials_actual acts) (total_income allocs)) (\<lambda>p1.
         then_do (percentage_of (non_essentials_actual acts) (total_income allocs)) (\<lambda>p2.
         then_do (percentage_of (savings_actual acts) (total_income allocs)) (\<lambda>p3.
         Inr \<lparr>essentials =
                \<lparr>target = essentials_target allocs, actual = essentials_actual acts,
                 difference = essentials_actual acts - essentials_target allocs,
                 percentage = p1\<rparr>,
              non_essentials =
                \<lparr>target = non_essentials_target allocs, actual = non_essentials_actual acts,
                 difference = non_essentials_actual acts - non_essentials_target allocs,
                 percentage = p2\<rparr>,
              savings =
                \<lparr>target = savings_target allocs, actual = savings_actual acts,
                 difference = savings_actual acts - savings_target allocs,
                 percentage = p3\<rparr>,
              summary_total_income = total_income allocs\<rparr>))))"

subsection \<open>Trends and bills by date\<close>

text \<open>
  The methods below read the clock with \<^verbatim>\<open>datetime.now().date()\<close>; the day they get is the
  argument \<open>today\<close>. \<^verbatim>\<open>df.groupby(col)[val].sum().reset_index()\<close> has one row per distinct
  key, the keys ascending, with the sum of the group.
\<close>

definition groupby_sum :: "('r \<Rightarrow> date) \<Rightarrow> ('r \<Rightarrow> real) \<Rightarrow> 'r list \<Rightarrow> (date \<times> real) list" where
  "groupby_sum col val df =
     map (\<lambda>d. (d, sum_list (map val (filter (\<lambda>r. col r = d) df)))) (sort (remdups (map col df)))"

fun cumsum_from :: "real \<Rightarrow> real list \<Rightarrow> real list" where
  "cumsum_from acc [] = []"
| "cumsum_from acc (x # xs) = (acc + x) # cumsum_from (acc + x) xs"

definition cumsum :: "real list \<Rightarrow> real list" where
  "cumsum xs = cumsum_from 0 xs"

text \<open>
  The dictionary \<^verbatim>\<open>trends\<close>: a key is present only when its frame is not empty. The
  savings entry keeps the deposits of the window, row by row, with the column
  \<^verbatim>\<open>Cumulative\<close> beside them.
\<close>

record trends =
  non_essentials_trend :: "(date \<times> real) list option"
  income_trend :: "(date \<times> real) list option"
  savings_trend :: "(savings_row \<times> real) list option"

definition get_spending_trends :: "store \<Rightarrow> date \<Rightarrow> int \<Rightarrow> trends" where
  "get_spending_trends st today days =
     (let end_date = today;
          start_date = end_date - days;
          non_essentials_data = get_non_essentials_data st;
          income_data = get_income_data st;
          savings_data = get_savings_data st
      in \<lparr>non_essentials_trend =
            (if non_essentials_data \<noteq> []
             then Some (groupby_sum ne_date ne_amount
                    (filter (\<lambda>r. start_date \<le> ne_date r \<and> ne_date r \<le> end_date) non_essentials_data))
             else None),
          income_trend =
            (if income_data \<noteq> []
             then Some (groupby_sum inc_date inc_amount
                    (filter (\<lambda>r. start_date \<le> inc_date r \<and> inc_date r \<le> end_date) income_data))
             else None),
          savings_trend =
            (if savings_data \<noteq> []
             then Some (let recent_savings =
                          filter (\<lambda>r. start_date \<le> sav_date r \<and> sav_date r \<le> end_date) savings_data
                        in zip recent_savings (cumsum (map sav_deposit recent_savings)))
             else None)\<rparr>)"

text \<open>
  \<^verbatim>\<open>create_spending_trend_chart\<close> of \<^verbatim>\<open>charts.py\<close>, up to the series it plots: the two early
  returns that draw a message instead, and the frame \<^verbatim>\<open>complete_data\<close>, the left merge of
  the full date range with the daily sums, missing sums filled with 0.
\<close>

datatype spending_chart = NoData | NoRecentData int | Trend "(date \<times> real) list"

definition create_spending_trend_chart :: "non_essential_row list \<Rightarrow> date \<Rightarrow> int \<Rightarrow> spending_chart" where
  "create_spending_trend_chart non_essentials_data today days =
     (if non_essentials_data = [] then NoData
      else (let end_date = today;
                start_date = end_date - days;
                data = filter (\<lambda>r. start_date \<le> ne_date r \<and> ne_date r \<le> end_date) non_essentials_data
            in if data = [] then NoRecentData days
               else (let daily_spending = groupby_sum ne_date ne_amount data;
                         date_range = [start_date..end_date];
                         complete_data =
                           map (\<lambda>d. (d, case map_of daily_spending d of None \<Rightarrow> 0 | Some a \<Rightarrow> a))
                             date_range
                     in Trend complete_data)))"

definition get_overdue_bills :: "store \<Rightarrow> date \<Rightarrow> bill_row list" where
  "get_overdue_bills st today =
     (let bills = get_bills_data st
      in if bills = [] then []
         else (let overdue = filter (\<lambda>b. status b = ''Unpaid'' \<and> due_date b < today) bills
               in sort_values due_date overdue))"

definition get_upcoming_bills :: "store \<Rightarrow> date \<Rightarrow> int \<Rightarrow> bill_row list" where
  "get_upcoming_bills st today days =
     (let bills = get_bills_data st
      in if bills = [] then []
         else (let future_date = today + days;
                   upcoming = filter (\<lambda>b. status b = ''Unpaid'' \<and> due_date b \<ge> today
                                          \<and> due_date b \<le> future_date) bills
               in sort_values due_date upcoming))"

section \<open>The settings of \<^verbatim>\<open>settings_manager.py\<close>\<close>

text \<open>
  A settings value is a Python value: \<^verbatim>\<open>None\<close>, a boolean, a number, a string, a list of
  values, or an object of some other class, of which the model keeps what \<^verbatim>\<open>str\<close> prints.
  A float is a real number here (no NaN, no infinity). A dictionary with string keys is
  the list of its items in insertion order, the keys distinct; two dictionaries are equal
  in Python when they map the same keys to the same values, that is, when \<open>map_of\<close> of
  the two lists is the same.
\<close>

datatype pyval =
    PNone
  | PBool bool
  | PInt int
  | PFloat real
  | PStr string
  | PList "pyval list"
  | PObject string

type_synonym settings = "(string \<times> pyval) list"

fun dict_set :: "('k \<times> 'v) list \<Rightarrow> 'k \<Rightarrow> 'v \<Rightarrow> ('k \<times> 'v) list" where
  "dict_set [] k v = [(k, v)]"
| "dict_set ((k', v') # d) k v = (if k' = k then (k, v) # d else (k', v') # dict_set d k v)"

definition dict_update :: "('k \<times> 'v) list \<Rightarrow> ('k \<times> 'v) list \<Rightarrow> ('k \<times> 'v) list" where
  "dict_update d other = fold (\<lambda>(k, v) acc. dict_set acc k v) other d"

text \<open>
  The JSON documents, and the two directions of the \<^verbatim>\<open>json\<close> module. \<open>json_encode\<close> is
  the encoder with \<^verbatim>\<open>default=str\<close>: an object it does not know is written as the string
  \<^verbatim>\<open>str\<close> gives. \<open>json_dumps\<close> is the encoder without a default, which raises
  \<^verbatim>\<open>TypeError\<close> on such an object. The text of a document is not modelled.
\<close>

datatype json =
    JNull
  | JBool bool
  | JInt int
  | JFloat real
  | JString string
  | JArray "json list"

fun json_encode :: "pyval \<Rightarrow> json" where
  "json_encode PNone = JNull"
| "json_encode (PBool b) = JBool b"
| "json_encode (PInt i) = JInt i"
| "json_encode (PFloat x) = JFloat x"
| "json_encode (PStr s) = JString s"
| "json_encode (PList xs) = JArray (map json_encode xs)"
| "json_encode (PObject s) = JString s"

fun json_decode :: "json \<Rightarrow> pyval" where
  "json_decode JNull = PNone"
| "json_decode (JBool b) = PBool b"
| "json_decode (JInt i) = PInt i"
| "json_decode (JFloat x) = PFloat x"
| "json_decode (JString s) = PStr s"
| "json_decode (JArray js) = PList (map json_decode js)"

fun json_native :: "pyval \<Rightarrow> bool" where
  "json_native (PObject s) = False"
| "json_native (PList xs) = list_all json_native xs"
| "json_native v = True"

definition json_dumps :: "pyval \<Rightarrow> error + json" where
  "json_dumps v =
     (if json_native v then Inr (json_encode v)
      else Inl (Exception ''Object is not JSON serializable''))"

text \<open>
  The settings file: absent, present with a content on which \<^verbatim>\<open>json.load\<close> or the merge
  raises, or a JSON object, the list of its members in the order of the text.
  \<^verbatim>\<open>json.load\<close> builds the dictionary member by member, a repeated key keeping its first
  place and its last value.
\<close>

datatype json_file = Missing | Malformed | Document "(string \<times> json) list"

datatype json_write = JsonWritten | JsonWriteFails json_file

definition json_load :: "(string \<times> json) list \<Rightarrow> settings" where
  "json_load doc = fold (\<lambda>(k, j) acc. dict_set acc k (json_decode j)) doc []"

definition json_dump :: "settings \<Rightarrow> (string \<times> json) list" where
  "json_dump settings = map (\<lambda>(k, v). (k, json_encode v)) settings"

text \<open>
  A cell of the frame that \<^verbatim>\<open>save_settings_to_csv\<close> writes: the text \<^verbatim>\<open>json.dumps\<close> makes
  of a list, the lower-case text of a boolean, or the value as it is.
\<close>

datatype cell = JsonText json | Text string | Raw pyval

record settings_store =
  settings_json :: json_file
  settings_csv :: "(string \<times> cell) csv_file"

definition default_settings :: settings where
  "default_settings =
     [(''theme'', PStr ''dark''),
      (''currency'', PStr ''PHP''),
      (''date_format'', PStr ''%Y-%m-%d''),
      (''window_geometry'', PStr ''1400x800''),
      (''auto_save'', PBool True),
      (''backup_frequency'', PInt 7),
      (''last_backup'', PNone),
      (''notifications_enabled'', PBool True),
      (''budget_alerts'', PBool True),
      (''overspending_alert_threshold'', PInt 10),
      (''currency_symbol'', PStr [CHR 0xE2, CHR 0x82, CHR 0xB1]),
      (''decimal_places'', PInt 2),
      (''first_time_setup'', PBool True),
      (''language'', PStr ''en''),
      (''export_format'', PStr ''xlsx''),
      (''chart_style'', PStr ''default''),
      (''sidebar_expanded'', PBool True),
      (''default_page'', PStr ''dashboard''),
      (''income_categories'',
         PList [PStr ''Salary'', PStr ''Freelance'', PStr ''Investments'', PStr ''Business'',
                PStr ''Other'']),
      (''essential_categories'',
         PList [PStr ''Housing'', PStr ''Utilities'', PStr ''Groceries'', PStr ''Transportation'',
                PStr ''Insurance'', PStr ''Healthcare'', PStr ''Debt Payments'']),
      (''non_essential_categories'',
         PList [PStr ''Entertainment'', PStr ''Dining Out'', PStr ''Shopping'', PStr ''Hobbies'',
                PStr ''Travel'', PStr ''Subscriptions'', PStr ''Personal Care''])]"

text \<open>
  \<^verbatim>\<open>load_settings\<close>. When the settings file is absent the method returns what
  \<^verbatim>\<open>load_settings_from_csv\<close> makes of the legacy file; that method catches every exception
  and its reading of the legacy text is an argument here, \<open>from_csv\<close>. The messages the
  settings manager prints are not modelled.
\<close>

definition load_settings :: "settings \<Rightarrow> settings_store \<Rightarrow> settings" where
  "load_settings from_csv st =
     (case settings_json st of
        Document doc \<Rightarrow> dict_update default_settings (json_load doc)
      | Missing \<Rightarrow> from_csv
      | Malformed \<Rightarrow> default_settings)"

definition to_cell :: "pyval \<Rightarrow> error + cell" where
  "to_cell v =
     (case v of
        PList xs \<Rightarrow> then_do (json_dumps v) (\<lambda>j. Inr (JsonText j))
      | PBool b \<Rightarrow> Inr (Text (if b then ''true'' else ''false''))
      | _ \<Rightarrow> Inr (Raw v))"

fun csv_rows :: "settings \<Rightarrow> error + (string \<times> cell) list" where
  "csv_rows [] = Inr []"
| "csv_rows ((k, v) # rest) =
     then_do (to_cell v) (\<lambda>c. then_do (csv_rows rest) (\<lambda>cs. Inr ((k, c) # cs)))"

text \<open>\<^verbatim>\<open>save_settings_to_csv\<close> catches every exception, so it only changes the store.\<close>

definition save_settings_to_csv ::
  "settings_store \<Rightarrow> (string \<times> cell) write_outcome \<Rightarrow> settings \<Rightarrow> settings_store" where
  "save_settings_to_csv st w settings =
     (case csv_rows settings of
        Inl e \<Rightarrow> st
      | Inr data \<Rightarrow> st\<lparr>settings_csv := snd (to_csv w data)\<rparr>)"

definition save_settings ::
  "settings_store \<Rightarrow> json_write \<Rightarrow> (string \<times> cell) write_outcome \<Rightarrow> settings
     \<Rightarrow> (error + unit) \<times> settings_store" where
  "save_settings st wj wc settings =
     (case wj of
        JsonWritten \<Rightarrow>
          (Inr (), save_settings_to_csv (st\<lparr>settings_json := Document (json_dump settings)\<rparr>) wc settings)
      | JsonWriteFails left \<Rightarrow>
          (Inl (Exception ''Failed to save settings: cannot write file''),
           st\<lparr>settings_json := left\<rparr>))"

section \<open>Example inputs\<close>

text \<open>One store used to evaluate the operations: the non-essentials file cannot be parsed.\<close>

definition example_store :: store where
  "example_store =
     \<lparr>income_csv = Rows [\<lparr>inc_description = ''pay'', inc_amount = 1000, inc_date = 738000\<rparr>],
      essentials_csv = Rows [],
      bills_csv = Rows [\<lparr>bill_name = ''A'', amount_due = 100, due_date = 738000, status = ''Unpaid''\<rparr>],
      non_essentials_csv = Unreadable,
      savings_csv = Rows [],
      writes = []\<rparr>"

text \<open>
  A store with three bills, written out of date order and with one status that is
  neither \<^verbatim>\<open>Paid\<close> nor \<^verbatim>\<open>Unpaid\<close>. Listed by due date they are A, C, B.
\<close>

definition example_bills :: store where
  "example_bills =
     \<lparr>income_csv = Rows [],
      essentials_csv = Rows [],
      bills_csv = Rows
        [\<lparr>bill_name = ''B'', amount_due = 50, due_date = 738010, status = ''Paid''\<rparr>,
         \<lparr>bill_name = ''A'', amount_due = 100, due_date = 738000, status = ''Unpaid''\<rparr>,
         \<lparr>bill_name = ''C'', amount_due = 75, due_date = 738005, status = ''pending''\<rparr>],
      non_essentials_csv = Rows [],
      savings_csv = Rows [],
      writes = []\<rparr>"

text \<open>
  The scenario of the specification: one income of 1000 on 2024-01-01 and essentials that
  cost 600. And a store without income entries that has one expense.
\<close>

definition scenario_store :: store where
  "scenario_store =
     \<lparr>income_csv = Rows [\<lparr>inc_description = ''salary'', inc_amount = 1000, inc_date = 738886\<rparr>],
      essentials_csv = Rows [\<lparr>ess_category = ''Housing'', ess_expected = 500, ess_actual = 600\<rparr>],
      bills_csv = Rows [],
      non_essentials_csv = Rows [],
      savings_csv = Rows [],
      writes = []\<rparr>"

definition no_income_store :: store where
  "no_income_store =
     \<lparr>income_csv = Rows [],
      essentials_csv = Rows [],
      bills_csv = Rows [],
      non_essentials_csv = Rows [\<lparr>ne_expense = ''cinema'', ne_amount = 12, ne_date = 738886, ne_notes = ''''\<rparr>],
      savings_csv = Rows [],
      writes = []\<rparr>"

text \<open>A ledger with all four kinds of amounts: income 1000, spending 600 + 300, savings 150.\<close>

definition example_ledger :: store where
  "example_ledger =
     \<lparr>income_csv = Rows [\<lparr>inc_description = ''salary'', inc_amount = 1000, inc_date = 738886\<rparr>],
      essentials_csv = Rows [\<lparr>ess_category = ''Housing'', ess_expected = 500, ess_actual = 600\<rparr>],
      bills_csv = Rows [],
      non_essentials_csv = Rows
        [\<lparr>ne_expense = ''travel'', ne_amount = 300, ne_date = 738890, ne_notes = ''''\<rparr>],
      savings_csv = Rows [\<lparr>sav_deposit = 150, sav_date = 738895\<rparr>],
      writes = []\<rparr>"

text \<open>
  The bills of the specification's scenario: A, 100, due 2024-01-01, unpaid, and B, 50,
  due 2024-01-10, paid. And a ledger with expenses on two days of a five day window.
\<close>

definition scenario_bills :: store where
  "scenario_bills =
     \<lparr>income_csv = Rows [],
      essentials_csv = Rows [],
      bills_csv = Rows
        [\<lparr>bill_name = ''A'', amount_due = 100, due_date = 738886, status = ''Unpaid''\<rparr>,
         \<lparr>bill_name = ''B'', amount_due = 50, due_date = 738895, status = ''Paid''\<rparr>],
      non_essentials_csv = Rows [],
      savings_csv = Rows [],
      writes = []\<rparr>"

definition sparse_expenses :: "non_essential_row list" where
  "sparse_expenses =
     [\<lparr>ne_expense = ''lunch'', ne_amount = 10, ne_date = 738886, ne_notes = ''''\<rparr>,
      \<lparr>ne_expense = ''book'', ne_amount = 20, ne_date = 738888, ne_notes = ''''\<rparr>]"

definition sparse_store :: store where
  "sparse_store =
     \<lparr>income_csv = Rows [],
      essentials_csv = Rows [],
      bills_csv = Rows [],
      non_essentials_csv = Rows sparse_expenses,
      savings_csv = Rows [],
      writes = []\<rparr>"

text \<open>Settings stores and settings to save: a short map, and a map with every default key.\<close>

definition fresh_settings_store :: settings_store where
  "fresh_settings_store = \<lparr>settings_json = Missing, settings_csv = Rows []\<rparr>"

definition short_settings :: settings where
  "short_settings = [(''theme'', PStr ''light''), (''recent_pages'', PList [PInt 1, PNone])]"

definition full_settings :: settings where
  "full_settings = dict_set (dict_set default_settings ''theme'' (PStr ''light'')) ''zoom'' (PFloat 1.5)"

text \<open>A ledger with two savings deposits, the older one written first.\<close>

definition two_deposits :: store where
  "two_deposits =
     \<lparr>income_csv = Rows [],
      essentials_csv = Rows [],
      bills_csv = Rows [],
      non_essentials_csv = Rows [],
      savings_csv = Rows [\<lparr>sav_deposit = 10, sav_date = 738886\<rparr>, \<lparr>sav_deposit = 20, sav_date = 738889\<rparr>],
      writes = []\<rparr>"

text \<open>Seventeen unpaid bills, b1 to b17 in the order of the file, all due on the same day.\<close>

definition same_day_bills :: store where
  "same_day_bills =
     \<lparr>income_csv = Rows [],
      essentials_csv = Rows [],
      bills_csv = Rows (map (\<lambda>n. \<lparr>bill_name = ''b'' @ string_of_nat n, amount_due = 10,
                                  due_date = 738886, status = ''Unpaid''\<rparr>) [1..<18]),
      non_essentials_csv = Rows [],
      savings_csv = Rows [],
      writes = []\<rparr>"

text \<open>
  Column dtypes: all float64, as the forms of the application write the amounts; all
  int64; and float64 but for an int64 column of deposits. And a ledger whose two deposits
  add up to \<open>2 ^ 63\<close>.
\<close>

definition float_columns :: dtypes where
  "float_columns = \<lparr>income_dtype = Float64, essentials_dtype = Float64,
      non_essentials_dtype = Float64, savings_dtype = Float64\<rparr>"

definition integer_columns :: dtypes where
  "integer_columns = \<lparr>income_dtype = Int64, essentials_dtype = Int64,
      non_essentials_dtype = Int64, savings_dtype = Int64\<rparr>"

definition integer_savings :: dtypes where
  "integer_savings = \<lparr>income_dtype = Float64, essentials_dtype = Float64,
      non_essentials_dtype = Float64, savings_dtype = Int64\<rparr>"

definition wrapping_savings :: store where
  "wrapping_savings =
     \<lparr>income_csv = Rows [\<lparr>inc_description = ''salary'', inc_amount = 1000, inc_date = 738886\<rparr>],
      essentials_csv = Rows [],
      bills_csv = Rows [],
      non_essentials_csv = Rows [],
      savings_csv = Rows [\<lparr>sav_deposit = 9223372036854775807, sav_date = 738886\<rparr>,
                          \<lparr>sav_deposit = 1, sav_date = 738887\<rparr>],
      writes = []\<rparr>"

section \<open>Properties of the ledger store\<close>

lemmas getters = get_income_data_def get_essentials_data_def get_bills_data_def
  get_non_essentials_data_def get_savings_data_def load_income_def load_essentials_def
  load_bills_def load_non_essentials_def load_savings_def load_csv_def read_csv_def

text \<open>
  Claim C7. A position outside \<open>[0, length)\<close> of the listed frame makes each of the five
  delete operations and the status toggle return normally with the store exactly as it
  was: no file changes and no \<^verbatim>\<open>to_csv\<close> call is added to \<open>writes\<close>, whatever the
  environment would have done with a write.
\<close>

theorem out_of_range_is_noop:
  "(\<not> (0 \<le> i \<and> i < int (length (get_income_data st))) \<longrightarrow>
      delete_income st w1 i = (Inr (), st)) \<and>
   (\<not> (0 \<le> i \<and> i < int (length (get_essentials_data st))) \<longrightarrow>
      delete_essential st w2 i = (Inr (), st)) \<and>
   (\<not> (0 \<le> i \<and> i < int (length (get_bills_data st))) \<longrightarrow>
      delete_bill st w3 i = (Inr (), st)) \<and>
   (\<not> (0 \<le> i \<and> i < int (length (get_non_essentials_data st))) \<longrightarrow>
      delete_non_essential st w4 i = (Inr (), st)) \<and>
   (\<not> (0 \<le> i \<and> i < int (length (get_savings_data st))) \<longrightarrow>
      delete_savings st w5 i = (Inr (), st)) \<and>
   (\<not> (0 \<le> i \<and> i < int (length (get_bills_data st))) \<longrightarrow>
      toggle_bill_status st w3 i = (Inr (), st))"
  by (simp add: delete_income_def delete_essential_def delete_bill_def delete_non_essential_def
      delete_savings_def toggle_bill_status_def Let_def)

theorem out_of_range_is_noop_witness:
  "delete_income example_store WriteOk 1 = (Inr (), example_store) \<and>
   delete_essential example_store WriteOk 0 = (Inr (), example_store) \<and>
   delete_bill example_store WriteOk (-1) = (Inr (), example_store) \<and>
   delete_non_essential example_store WriteOk 0 = (Inr (), example_store) \<and>
   delete_savings example_store WriteOk 3 = (Inr (), example_store) \<and>
   toggle_bill_status example_store WriteOk 1 = (Inr (), example_store)"
  using out_of_range_is_noop [of 1 example_store WriteOk WriteOk WriteOk WriteOk WriteOk]
    out_of_range_is_noop [of 0 example_store WriteOk WriteOk WriteOk WriteOk WriteOk]
    out_of_range_is_noop [of "-1" example_store WriteOk WriteOk WriteOk WriteOk WriteOk]
    out_of_range_is_noop [of 3 example_store WriteOk WriteOk WriteOk WriteOk WriteOk]
  by (simp add: getters example_store_def sort_values_def sort_values_desc_def)

subsection \<open>Toggling a bill\<close>

lemma bills_listing_sorted: "sorted (map due_date (get_bills_data st))"
  by (simp add: getters sort_values_def split: csv_file.splits)




lemma stable_argsort_ok: "argsort_ok stable_argsort"
  by (simp add: argsort_ok_def stable_argsort_def)

lemma take_by_permutation:
  assumes "mset p = mset [0..<length xs]"
  shows "mset (map (\<lambda>i. xs ! i) p) = mset xs"
proof -
  have "mset (map (\<lambda>i. xs ! i) p) = image_mset (\<lambda>i. xs ! i) (mset p)"
    by simp
  also have "\<dots> = image_mset (\<lambda>i. xs ! i) (mset [0..<length xs])"
    by (simp only: assms)
  also have "\<dots> = mset (map (\<lambda>i. xs ! i) [0..<length xs])"
    by simp
  also have "\<dots> = mset xs"
    by (simp only: map_nth)
  finally show ?thesis .
qed






lemma filter_take_rows:
  "filter P (map (\<lambda>i. df ! i) idx) = map (\<lambda>i. df ! i) (filter (\<lambda>i. P (df ! i)) idx)"
  by (induction idx) auto

lemma stable_argsort_is_sort_key:
  "sort_values_with stable_argsort col df = sort_key col df"
proof -
  let ?keys = "map col df"
  let ?idx = "sort_key (\<lambda>i. ?keys ! i) [0..<length df]"
  let ?ys = "map (\<lambda>i. df ! i) ?idx"
  have inside: "\<forall>i\<in>set ?idx. i < length df"
    by simp
  have keys: "map col ?ys = map (\<lambda>i. ?keys ! i) ?idx"
    using inside by (simp add: comp_def)
  have "sort_key col df = ?ys"
  proof (rule properties_for_sort_key)
    show "mset ?ys = mset df"
      by (rule take_by_permutation) simp
    have "sorted (map (\<lambda>i. ?keys ! i) ?idx)"
      by (rule sorted_sort_key)
    then show "sorted (map col ?ys)"
      by (simp only: keys)
    fix k assume "k \<in> set ?ys"
    have a: "filter (\<lambda>x. col k = col x) ?ys = map (\<lambda>i. df ! i) (filter (\<lambda>i. col k = col (df ! i)) ?idx)"
      by (rule filter_take_rows)
    have b: "filter (\<lambda>i. col k = col (df ! i)) ?idx = filter (\<lambda>i. ?keys ! i = col k) ?idx"
    proof (rule filter_cong)
      show "?idx = ?idx" ..
      fix i assume "i \<in> set ?idx"
      then have "i < length df" using inside by blast
      then show "(col k = col (df ! i)) = (?keys ! i = col k)" by auto
    qed
    have c: "filter (\<lambda>i. ?keys ! i = col k) ?idx = filter (\<lambda>i. ?keys ! i = col k) [0..<length df]"
      by (rule sort_key_stable)
    have d: "filter (\<lambda>i. ?keys ! i = col k) [0..<length df] = filter (\<lambda>i. col k = col (df ! i)) [0..<length df]"
    proof (rule filter_cong)
      show "[0..<length df] = [0..<length df]" ..
      fix i assume "i \<in> set [0..<length df]"
      then have "i < length df" by simp
      then show "(?keys ! i = col k) = (col k = col (df ! i))" by auto
    qed
    have e: "map (\<lambda>i. df ! i) (filter (\<lambda>i. col k = col (df ! i)) [0..<length df])
        = filter (\<lambda>x. col k = col x) (map (\<lambda>i. df ! i) [0..<length df])"
      by (rule filter_take_rows [symmetric])
    have f: "map (\<lambda>i. df ! i) [0..<length df] = df"
      by (rule map_nth)
    show "filter (\<lambda>x. col k = col x) ?ys = filter (\<lambda>x. col k = col x) df"
      by (simp only: a b c d e f)
  qed
  then show ?thesis
    by (simp only: sort_values_with_def stable_argsort_def length_map)
qed

lemma stable_listing: "get_bills_data_with stable_argsort st = get_bills_data st"
  by (simp add: get_bills_data_with_def getters sort_values_def stable_argsort_is_sort_key
      split: csv_file.splits)

lemma stable_toggle: "toggle_bill_status_with stable_argsort st w i = toggle_bill_status st w i"
  by (simp add: toggle_bill_status_with_def toggle_bill_status_def stable_listing)



lemma same_day_listing:
  "map bill_name (get_bills_data_with ties_reversed same_day_bills) =
    [''b17'', ''b16'', ''b15'', ''b14'', ''b13'', ''b12'', ''b11'', ''b10'',
     ''b9'', ''b8'', ''b7'', ''b6'', ''b5'', ''b4'', ''b3'', ''b2'', ''b1'']"
  by code_simp



subsection \<open>Failing reads and failing writes\<close>

text \<open>
  Claim C8, as the code has it. A list operation whose file cannot be read or parsed
  returns the empty frame and prints a message; its result is an ordinary value, no
  exception reaches the caller. An add, or a delete at a position inside the frame, whose
  write fails returns an exception that carries the method's own prefix. The method does
  nothing after the failed write: the other files are untouched, one \<^verbatim>\<open>to_csv\<close> call is
  recorded, and the file being written is in the state \<open>l\<close> in which the failed write
  left it. It is as it was before exactly when the failed write itself left it so.
\<close>

theorem failures_of_read_and_write:
  "(income_csv st = Unreadable \<longrightarrow> get_income_data st = [] \<and> snd (load_income st) \<noteq> []) \<and>
   (essentials_csv st = Unreadable \<longrightarrow> get_essentials_data st = [] \<and> snd (load_essentials st) \<noteq> []) \<and>
   (bills_csv st = Unreadable \<longrightarrow> get_bills_data st = [] \<and> snd (load_bills st) \<noteq> []) \<and>
   (non_essentials_csv st = Unreadable \<longrightarrow>
      get_non_essentials_data st = [] \<and> snd (load_non_essentials st) \<noteq> []) \<and>
   (savings_csv st = Unreadable \<longrightarrow> get_savings_data st = [] \<and> snd (load_savings st) \<noteq> []) \<and>
   add_income st (WriteFails l1) description amount d =
     (Inl (Exception ''Error adding income: cannot write file''),
      st\<lparr>income_csv := l1, writes := writes st @ [''income.csv'']\<rparr>) \<and>
   add_essential st (WriteFails l2) category expected spent =
     (Inl (Exception ''Error adding essential: cannot write file''),
      st\<lparr>essentials_csv := l2, writes := writes st @ [''essentials.csv'']\<rparr>) \<and>
   add_bill st (WriteFails l3) name due_amount d new_status =
     (Inl (Exception ''Error adding bill: cannot write file''),
      st\<lparr>bills_csv := l3, writes := writes st @ [''bills.csv'']\<rparr>) \<and>
   add_non_essential st (WriteFails l4) expense amount d notes =
     (Inl (Exception ''Error adding non-essential: cannot write file''),
      st\<lparr>non_essentials_csv := l4, writes := writes st @ [''non_essentials.csv'']\<rparr>) \<and>
   add_savings st (WriteFails l5) amount d =
     (Inl (Exception ''Error adding savings: cannot write file''),
      st\<lparr>savings_csv := l5, writes := writes st @ [''savings.csv'']\<rparr>) \<and>
   (0 \<le> i \<and> i < int (length (get_income_data st)) \<longrightarrow>
      delete_income st (WriteFails l1) i =
        (Inl (Exception ''Error deleting income: cannot write file''),
         st\<lparr>income_csv := l1, writes := writes st @ [''income.csv'']\<rparr>)) \<and>
   (0 \<le> i \<and> i < int (length (get_essentials_data st)) \<longrightarrow>
      delete_essential st (WriteFails l2) i =
        (Inl (Exception ''Error deleting essential: cannot write file''),
         st\<lparr>essentials_csv := l2, writes := writes st @ [''essentials.csv'']\<rparr>)) \<and>
   (0 \<le> i \<and> i < int (length (get_bills_data st)) \<longrightarrow>
      delete_bill st (WriteFails l3) i =
        (Inl (Exception ''Error deleting bill: cannot write file''),
         st\<lparr>bills_csv := l3, writes := writes st @ [''bills.csv'']\<rparr>)) \<and>
   (0 \<le> i \<and> i < int (length (get_non_essentials_data st)) \<longrightarrow>
      delete_non_essential st (WriteFails l4) i =
        (Inl (Exception ''Error deleting non-essential: cannot write file''),
         st\<lparr>non_essentials_csv := l4, writes := writes st @ [''non_essentials.csv'']\<rparr>)) \<and>
   (0 \<le> i \<and> i < int (length (get_savings_data st)) \<longrightarrow>
      delete_savings st (WriteFails l5) i =
        (Inl (Exception ''Error deleting savings: cannot write file''),
         st\<lparr>savings_csv := l5, writes := writes st @ [''savings.csv'']\<rparr>))"
proof -
  have reads:
    "income_csv st = Unreadable \<longrightarrow> get_income_data st = [] \<and> snd (load_income st) \<noteq> []"
    "essentials_csv st = Unreadable \<longrightarrow> get_essentials_data st = [] \<and> snd (load_essentials st) \<noteq> []"
    "bills_csv st = Unreadable \<longrightarrow> get_bills_data st = [] \<and> snd (load_bills st) \<noteq> []"
    "non_essentials_csv st = Unreadable \<longrightarrow>
      get_non_essentials_data st = [] \<and> snd (load_non_essentials st) \<noteq> []"
    "savings_csv st = Unreadable \<longrightarrow> get_savings_data st = [] \<and> snd (load_savings st) \<noteq> []"
    by (simp_all add: getters)
  have fails: "\<And>prefix (left :: 'r csv_file) df.
      write_back prefix (WriteFails left) df = (Inl (Exception (prefix @ ''cannot write file'')), left)"
    by (simp add: write_back_def to_csv_def)
  have adds:
    "add_income st (WriteFails l1) description amount d =
     (Inl (Exception ''Error adding income: cannot write file''),
      st\<lparr>income_csv := l1, writes := writes st @ [''income.csv'']\<rparr>)"
    "add_essential st (WriteFails l2) category expected spent =
     (Inl (Exception ''Error adding essential: cannot write file''),
      st\<lparr>essentials_csv := l2, writes := writes st @ [''essentials.csv'']\<rparr>)"
    "add_bill st (WriteFails l3) name due_amount d new_status =
     (Inl (Exception ''Error adding bill: cannot write file''),
      st\<lparr>bills_csv := l3, writes := writes st @ [''bills.csv'']\<rparr>)"
    "add_non_essential st (WriteFails l4) expense amount d notes =
     (Inl (Exception ''Error adding non-essential: cannot write file''),
      st\<lparr>non_essentials_csv := l4, writes := writes st @ [''non_essentials.csv'']\<rparr>)"
    "add_savings st (WriteFails l5) amount d =
     (Inl (Exception ''Error adding savings: cannot write file''),
      st\<lparr>savings_csv := l5, writes := writes st @ [''savings.csv'']\<rparr>)"
    by (simp_all add: add_income_def add_essential_def add_bill_def add_non_essential_def
        add_savings_def Let_def fails)
  have deletes:
    "0 \<le> i \<and> i < int (length (get_income_data st)) \<longrightarrow>
      delete_income st (WriteFails l1) i =
        (Inl (Exception ''Error deleting income: cannot write file''),
         st\<lparr>income_csv := l1, writes := writes st @ [''income.csv'']\<rparr>)"
    "0 \<le> i \<and> i < int (length (get_essentials_data st)) \<longrightarrow>
      delete_essential st (WriteFails l2) i =
        (Inl (Exception ''Error deleting essential: cannot write file''),
         st\<lparr>essentials_csv := l2, writes := writes st @ [''essentials.csv'']\<rparr>)"
    "0 \<le> i \<and> i < int (length (get_bills_data st)) \<longrightarrow>
      delete_bill st (WriteFails l3) i =
        (Inl (Exception ''Error deleting bill: cannot write file''),
         st\<lparr>bills_csv := l3, writes := writes st @ [''bills.csv'']\<rparr>)"
    "0 \<le> i \<and> i < int (length (get_non_essentials_data st)) \<longrightarrow>
      delete_non_essential st (WriteFails l4) i =
        (Inl (Exception ''Error deleting non-essential: cannot write file''),
         st\<lparr>non_essentials_csv := l4, writes := writes st @ [''non_essentials.csv'']\<rparr>)"
    "0 \<le> i \<and> i < int (length (get_savings_data st)) \<longrightarrow>
      delete_savings st (WriteFails l5) i =
        (Inl (Exception ''Error deleting savings: cannot write file''),
         st\<lparr>savings_csv := l5, writes := writes st @ [''savings.csv'']\<rparr>)"
    by (simp_all add: delete_income_def delete_essential_def delete_bill_def
        delete_non_essential_def delete_savings_def Let_def fails)
  show ?thesis
    using reads adds deletes by blast
qed

theorem failures_of_read_and_write_witness:
  "get_non_essentials_data example_store = [] \<and>
   add_income example_store (WriteFails (income_csv example_store)) ''bonus'' 50 738001 =
     (Inl (Exception ''Error adding income: cannot write file''),
      example_store\<lparr>writes := [''income.csv'']\<rparr>) \<and>
   delete_bill example_store (WriteFails (Rows [])) 0 =
     (Inl (Exception ''Error deleting bill: cannot write file''),
      example_store\<lparr>bills_csv := Rows [], writes := [''bills.csv'']\<rparr>)"
proof -
  have unreadable: "non_essentials_csv example_store = Unreadable"
    by (simp add: example_store_def)
  have inside: "0 \<le> (0::int) \<and> 0 < int (length (get_bills_data example_store))"
    by (simp add: getters example_store_def sort_values_def)
  have same: "example_store\<lparr>income_csv := income_csv example_store, writes := ws\<rparr>
      = example_store\<lparr>writes := ws\<rparr>" for ws
    by simp
  show ?thesis
    using unreadable inside
      failures_of_read_and_write [where st = example_store and i = 0
        and ?l1.0 = "income_csv example_store" and ?l3.0 = "Rows []"
        and description = "''bonus''" and amount = 50 and d = 738001]
    by (simp add: same) (simp add: example_store_def)
qed

text \<open>
  The claim as stated fails where the write raises after the file was opened for writing:
  the add reports the error and the income file no longer holds the row it held.
\<close>

theorem failed_write_changes_store_counterexample:
  "fst (add_income example_store (WriteFails (Rows [])) ''bonus'' 50 738001) =
     Inl (Exception ''Error adding income: cannot write file'') \<and>
   income_csv (snd (add_income example_store (WriteFails (Rows [])) ''bonus'' 50 738001)) = Rows [] \<and>
   income_csv example_store =
     Rows [\<lparr>inc_description = ''pay'', inc_amount = 1000, inc_date = 738000\<rparr>]"
  by (simp add: add_income_def write_back_def to_csv_def Let_def example_store_def)

section \<open>Properties of the derived figures\<close>




lemma percentage_of_zero: "percentage_of x 0 = Inr 0"
  by (simp add: percentage_of_def)

text \<open>
  Claim C3. Without income entries the total income is 0. When the total income is 0 the
  summary is computed without an exception (the three divisions are not reached), and in
  it the target and the percentage of every category are 0. A category whose frame is
  empty has actual 0.
\<close>

theorem summary_without_income:
  "(get_income_data st = [] \<longrightarrow> total_income (calculate_budget_allocations st) = 0) \<and>
   (total_income (calculate_budget_allocations st) = 0 \<longrightarrow>
      (\<exists>s. get_budget_summary st = Inr s \<and>
         target (essentials s) = 0 \<and> percentage (essentials s) = 0 \<and>
         target (non_essentials s) = 0 \<and> percentage (non_essentials s) = 0 \<and>
         target (savings s) = 0 \<and> percentage (savings s) = 0)) \<and>
   (get_essentials_data st = [] \<longrightarrow> essentials_actual (calculate_actual_spending st) = 0) \<and>
   (get_non_essentials_data st = [] \<longrightarrow> non_essentials_actual (calculate_actual_spending st) = 0) \<and>
   (get_savings_data st = [] \<longrightarrow> savings_actual (calculate_actual_spending st) = 0)"
proof -
  have a: "get_income_data st = [] \<longrightarrow> total_income (calculate_budget_allocations st) = 0"
    by (simp add: calculate_budget_allocations_def)
  have b: "total_income (calculate_budget_allocations st) = 0 \<longrightarrow>
      (\<exists>s. get_budget_summary st = Inr s \<and>
         target (essentials s) = 0 \<and> percentage (essentials s) = 0 \<and>
         target (non_essentials s) = 0 \<and> percentage (non_essentials s) = 0 \<and>
         target (savings s) = 0 \<and> percentage (savings s) = 0)"
  proof
    assume z: "total_income (calculate_budget_allocations st) = 0"
    then have t: "essentials_target (calculate_budget_allocations st) = 0"
      "non_essentials_target (calculate_budget_allocations st) = 0"
      "savings_target (calculate_budget_allocations st) = 0"
      by (simp_all add: calculate_budget_allocations_def Let_def split: if_splits)
    show "\<exists>s. get_budget_summary st = Inr s \<and>
         target (essentials s) = 0 \<and> percentage (essentials s) = 0 \<and>
         target (non_essentials s) = 0 \<and> percentage (non_essentials s) = 0 \<and>
         target (savings s) = 0 \<and> percentage (savings s) = 0"
      by (simp add: get_budget_summary_def Let_def z t percentage_of_zero then_do_def)
  qed
  have c: "get_essentials_data st = [] \<longrightarrow> essentials_actual (calculate_actual_spending st) = 0"
    "get_non_essentials_data st = [] \<longrightarrow> non_essentials_actual (calculate_actual_spending st) = 0"
    "get_savings_data st = [] \<longrightarrow> savings_actual (calculate_actual_spending st) = 0"
    by (simp_all add: calculate_actual_spending_def Let_def)
  show ?thesis using a b c by blast
qed

theorem summary_without_income_witness:
  "get_budget_summary no_income_store =
     Inr \<lparr>essentials = \<lparr>target = 0, actual = 0, difference = 0, percentage = 0\<rparr>,
          non_essentials = \<lparr>target = 0, actual = 12, difference = 12, percentage = 0\<rparr>,
          savings = \<lparr>target = 0, actual = 0, difference = 0, percentage = 0\<rparr>,
          summary_total_income = 0\<rparr>"
proof -
  have e: "get_income_data no_income_store = []"
    by (simp add: getters no_income_store_def)
  have ne: "get_non_essentials_data no_income_store = [\<lparr>ne_expense = ''cinema'', ne_amount = 12, ne_date = 738886, ne_notes = ''''\<rparr>]"
    by (simp add: getters no_income_store_def sort_values_desc_def)
  have ee: "get_essentials_data no_income_store = []" "get_savings_data no_income_store = []"
    by (simp_all add: getters no_income_store_def)
  from summary_without_income [of no_income_store] e ee
  obtain s where s: "get_budget_summary no_income_store = Inr s"
    and z: "target (essentials s) = 0" "percentage (essentials s) = 0"
      "target (non_essentials s) = 0" "percentage (non_essentials s) = 0"
      "target (savings s) = 0" "percentage (savings s) = 0"
    and acts: "essentials_actual (calculate_actual_spending no_income_store) = 0"
      "savings_actual (calculate_actual_spending no_income_store) = 0"
    by blast
  have n: "non_essentials_actual (calculate_actual_spending no_income_store) = 12"
    by (simp add: calculate_actual_spending_def Let_def ne)
  have ti: "total_income (calculate_budget_allocations no_income_store) = 0"
    by (simp add: calculate_budget_allocations_def e)
  have fields: "actual (essentials s) = 0" "actual (non_essentials s) = 12" "actual (savings s) = 0"
    "difference (essentials s) = 0" "difference (non_essentials s) = 12" "difference (savings s) = 0"
    "summary_total_income s = 0"
    using s z acts n ti
    by (auto simp: get_budget_summary_def Let_def then_do_def split: sum.splits)
  show ?thesis
    unfolding s using z fields by (cases s) (auto intro: category_summary.equality)
qed

subsection \<open>Variance\<close>

lemma variance_value: "variance a t = Inr (if t > 0 then (a - t) / t * 100 else 0)"
  by (simp add: variance_def then_do_def truediv_def)

lemma scenario_summary:
  "get_budget_summary scenario_store =
     Inr \<lparr>essentials = \<lparr>target = 500, actual = 600, difference = 100, percentage = 60\<rparr>,
          non_essentials = \<lparr>target = 300, actual = 0, difference = -300, percentage = 0\<rparr>,
          savings = \<lparr>target = 200, actual = 0, difference = -200, percentage = 0\<rparr>,
          summary_total_income = 1000\<rparr>"
  by (simp add: get_budget_summary_def calculate_budget_allocations_def
      calculate_actual_spending_def percentage_of_def then_do_def truediv_def Let_def
      getters scenario_store_def sort_values_desc_def)

lemma scenario_metrics:
  "key_metrics scenario_store =
     Inr \<lparr>m_total_income = 1000, total_essentials = 600, total_non_essentials = 0,
          total_savings = 0, total_expenses = 600, target_essentials = 500,
          target_non_essentials = 300, target_savings = 200, savings_rate = 0,
          expense_ratio = 60\<rparr>"
  by (simp add: key_metrics_def then_do_def truediv_def Let_def
      getters scenario_store_def sort_values_desc_def)

lemma texts: "variance_text 20 = ''Over by 20.0%''" "variance_text (-100) = ''Under by 100.0%''"
  by code_simp+

text \<open>
  Claim C4. The variance is \<open>(actual - target) / target * 100\<close> when the target is
  positive and 0 when the target is 0, computed without an exception in both cases. The
  label is \<^verbatim>\<open>Over\<close> for a positive variance and \<^verbatim>\<open>Under\<close> for a negative one, and the text
  shown is the label, the absolute variance with one decimal and a percent sign. In the
  scenario (income 1000, essentials 600) the summary has target 500 and difference 100,
  the variance is 20 and the first text of the page is \<^verbatim>\<open>Over by 20.0%\<close>.
\<close>

theorem variance_and_classification:
  "(0 < t \<longrightarrow> variance a t = Inr ((a - t) / t * 100)) \<and>
   (t = 0 \<longrightarrow> variance a t = Inr 0) \<and>
   (0 < v \<longrightarrow> variance_label v = ''Over'') \<and>
   (v < 0 \<longrightarrow> variance_label v = ''Under'') \<and>
   variance_text v = variance_label v @ '' by '' @ format_1f \<bar>v\<bar> @ ''%'' \<and>
   (\<exists>s m. get_budget_summary scenario_store = Inr s \<and>
      target (essentials s) = 500 \<and> actual (essentials s) = 600 \<and>
      difference (essentials s) = 100 \<and>
      key_metrics scenario_store = Inr m \<and>
      total_essentials m = 600 \<and> target_essentials m = 500 \<and>
      variance (total_essentials m) (target_essentials m) = Inr 20 \<and>
      adherence_loop m =
        Inr ([''Over by 20.0%'', ''Under by 100.0%'', ''Under by 100.0%''], - 100))"
proof -
  have general: "(0 < t \<longrightarrow> variance a t = Inr ((a - t) / t * 100)) \<and>
   (t = 0 \<longrightarrow> variance a t = Inr 0) \<and>
   (0 < v \<longrightarrow> variance_label v = ''Over'') \<and>
   (v < 0 \<longrightarrow> variance_label v = ''Under'') \<and>
   variance_text v = variance_label v @ '' by '' @ format_1f \<bar>v\<bar> @ ''%''"
    by (simp add: variance_value variance_label_def variance_text_def)
  have loop: "adherence_loop \<lparr>m_total_income = 1000, total_essentials = 600, total_non_essentials = 0,
          total_savings = 0, total_expenses = 600, target_essentials = 500,
          target_non_essentials = 300, target_savings = 200, savings_rate = 0,
          expense_ratio = 60\<rparr> = Inr ([''Over by 20.0%'', ''Under by 100.0%'', ''Under by 100.0%''], - 100)"
    by (simp add: adherence_loop_def variance_value then_do_def texts)
  have scenario: "\<exists>s m. get_budget_summary scenario_store = Inr s \<and>
      target (essentials s) = 500 \<and> actual (essentials s) = 600 \<and>
      difference (essentials s) = 100 \<and>
      key_metrics scenario_store = Inr m \<and>
      total_essentials m = 600 \<and> target_essentials m = 500 \<and>
      variance (total_essentials m) (target_essentials m) = Inr 20 \<and>
      adherence_loop m =
        Inr ([''Over by 20.0%'', ''Under by 100.0%'', ''Under by 100.0%''], - 100)"
    unfolding scenario_summary scenario_metrics
    by (simp add: variance_value loop)
  show ?thesis using general scenario by blast
qed

theorem variance_and_classification_witness:
  "variance 600 500 = Inr 20 \<and> variance 7 0 = Inr 0 \<and>
   variance_label 20 = ''Over'' \<and> variance_label (- 100) = ''Under'' \<and>
   variance_text 20 = ''Over by 20.0%''"
  using variance_and_classification [of 500 600 20]
    variance_and_classification [of 0 7 "- 100"]
  by (simp add: texts)

subsection \<open>Health score\<close>

lemma max_float64_big: "2 ^ 63 \<le> max_float64" "100 \<le> max_float64" "0 < max_float64"
  by (simp_all add: max_float64_def)

lemma float64_of_exact: "\<bar>r\<bar> \<le> max_float64 \<Longrightarrow> float64_of r = Finite r"
  by (auto simp: float64_of_def)

lemma float64_of_small: "0 \<le> r \<Longrightarrow> r < 2 ^ 63 \<Longrightarrow> float64_of r = Finite r"
  using max_float64_big(1) by (intro float64_of_exact) simp

lemma nonneg_float64_of: "0 \<le> r \<Longrightarrow> nonneg64 (float64_of r)"
  using max_float64_big(3) by (auto simp: float64_of_def)

lemma nonneg_fmul: "nonneg64 x \<Longrightarrow> 0 < c \<Longrightarrow> nonneg64 (fmul x (Finite c))"
  by (cases x) (auto simp: nonneg_float64_of)

lemma nonneg_fdiv: "nonneg64 x \<Longrightarrow> 0 < c \<Longrightarrow> nonneg64 (fdiv x (Finite c))"
  by (cases x) (auto simp: nonneg_float64_of)

lemma min_25: "nonneg64 x \<Longrightarrow> between 0 25 (py_min x (Finite 25))"
  by (cases x) (auto simp: py_min_def)

lemma sub_from_25: "nonneg64 x \<Longrightarrow> upto25 (fsub (Finite 25) x)"
  using max_float64_big(2) by (cases x) (auto simp: fsub_def float64_of_def)

lemma max_0: "upto25 y \<Longrightarrow> between 0 25 (py_max (Finite 0) y)"
  by (cases y) (auto simp: py_max_def)

lemma nonneg_fabs: "x \<noteq> NaN \<Longrightarrow> nonneg64 (fabs x)"
  by (cases x) auto

lemma float64_of_not_nan: "float64_of r \<noteq> NaN"
  by (simp add: float64_of_def)

lemma fmul_not_nan: "x \<noteq> NaN \<Longrightarrow> c \<noteq> 0 \<Longrightarrow> fmul x (Finite c) \<noteq> NaN"
  by (cases x) (auto simp: float64_of_not_nan)

lemma minus_80: "nonneg64 x \<Longrightarrow> flt (Finite 80) x \<Longrightarrow> nonneg64 (fsub x (Finite 80))"
  by (cases x) (auto simp: fsub_def nonneg_float64_of)

lemma adherence_range:
  "v \<noteq> NaN \<Longrightarrow>
     between 0 25 (py_max (Finite 0) (fsub (Finite 25) (fmul (fdiv (fabs v) (Finite 10)) (Finite 25))))"
  by (intro max_0 sub_from_25 nonneg_fmul nonneg_fdiv nonneg_fabs) simp_all

lemma rate_range:
  "nonneg64 x \<Longrightarrow> between 0 25 (py_min (fmul (fdiv x (Finite 20)) (Finite 25)) (Finite 25))"
  by (intro min_25 nonneg_fmul nonneg_fdiv) simp_all

lemma control_range:
  "nonneg64 x \<Longrightarrow>
     between 0 25
       (if flt (Finite 80) x
        then py_max (Finite 0)
               (fsub (Finite 25) (fmul (fdiv (fsub x (Finite 80)) (Finite 20)) (Finite 25)))
        else Finite 25)"
  by (auto intro!: max_0 sub_from_25 nonneg_fmul nonneg_fdiv minus_80)

lemma total_range:
  assumes "0 \<le> a" "a \<le> 25" "0 \<le> b" "b \<le> 25" "0 \<le> c" "c \<le> 25" "0 \<le> d" "d \<le> (25::real)"
  shows "foldl fadd (Finite 0) [Finite a, Finite b, Finite c, Finite d] = Finite (a + b + c + d)"
proof -
  have e1: "float64_of a = Finite a"
    using assms max_float64_big(2) by (intro float64_of_exact) simp
  have e2: "float64_of (a + b) = Finite (a + b)"
    using assms max_float64_big(2) by (intro float64_of_exact) simp
  have e3: "float64_of (a + b + c) = Finite (a + b + c)"
    using assms max_float64_big(2) by (intro float64_of_exact) simp
  have e4: "float64_of (a + b + c + d) = Finite (a + b + c + d)"
    using assms max_float64_big(2) by (intro float64_of_exact) simp
  show ?thesis
    by (simp add: e1 e2 e3 e4)
qed

lemma between_value: "between lo hi x \<Longrightarrow> \<exists>a. x = Finite a \<and> lo \<le> a \<and> a \<le> hi"
  by (cases x) auto

lemma sum_list_nonneg_real: "\<forall>x\<in>set xs. 0 \<le> x \<Longrightarrow> 0 \<le> sum_list (xs :: real list)"
  by (induction xs) auto

lemma foldl_fadd_exact:
  "\<forall>x\<in>set xs. 0 \<le> x \<Longrightarrow> 0 \<le> acc \<Longrightarrow> acc + sum_list xs < 2 ^ 63 \<Longrightarrow>
     foldl fadd (Finite acc) (map float64_of xs) = Finite (acc + sum_list xs)"
proof (induction xs arbitrary: acc)
  case Nil
  then show ?case by simp
next
  case (Cons x xs)
  have s0: "0 \<le> sum_list xs"
    using Cons.prems(1) by (simp add: sum_list_nonneg_real)
  have x0: "0 \<le> x"
    using Cons.prems(1) by simp
  have ex: "float64_of x = Finite x"
    using x0 s0 Cons.prems(2,3) by (intro float64_of_small) simp_all
  have eax: "float64_of (acc + x) = Finite (acc + x)"
    using x0 s0 Cons.prems(2,3) by (intro float64_of_small) simp_all
  have "foldl fadd (Finite (acc + x)) (map float64_of xs) = Finite (acc + x + sum_list xs)"
    using Cons.prems x0 by (intro Cons.IH) (simp_all add: add.assoc)
  then show ?case
    by (simp add: ex eax add.assoc)
qed

lemma wrap_int64_id: "0 \<le> n \<Longrightarrow> n < 2 ^ 63 \<Longrightarrow> wrap_int64 n = n"
  by (simp add: wrap_int64_def)

lemma sum_list_floor:
  "\<forall>x\<in>set xs. x \<in> \<int> \<Longrightarrow> real_of_int (sum_list (map floor xs)) = sum_list (xs :: real list)"
  by (induction xs) auto

lemma series_sum_exact:
  assumes "\<forall>x\<in>set xs. 0 \<le> x"
    and "dt = Int64 \<longrightarrow> (\<forall>x\<in>set xs. x \<in> \<int>)"
    and "sum_list xs < 2 ^ 63"
  shows "as_float (series_sum dt xs) = Finite (sum_list xs)"
proof (cases dt)
  case Int64
  have v: "real_of_int (sum_list (map floor xs)) = sum_list xs"
    using assms(2) Int64 by (simp add: sum_list_floor)
  have "0 \<le> real_of_int (sum_list (map floor xs))"
    unfolding v using assms(1) by (rule sum_list_nonneg_real)
  then have lo: "0 \<le> sum_list (map floor xs)"
    by simp
  have "real_of_int (sum_list (map floor xs)) < 2 ^ 63"
    unfolding v by (rule assms(3))
  then have hi: "sum_list (map floor xs) < 2 ^ 63"
    by simp
  show ?thesis
    by (simp add: series_sum_def Int64 wrap_int64_id [OF lo hi] v)
next
  case Float64
  show ?thesis
    using foldl_fadd_exact [of xs 0] assms(1,3) by (simp add: series_sum_def Float64)
qed

lemma n_add_exact:
  assumes "as_float x = Finite a" "as_float y = Finite b" "0 \<le> a + b" "a + b < 2 ^ 63"
  shows "as_float (n_add x y) = Finite (a + b)"
proof (cases "\<exists>i j. x = I64 i \<and> y = I64 j")
  case True
  then obtain i j where xy: "x = I64 i" "y = I64 j"
    by blast
  have v: "real_of_int (i + j) = a + b"
    using assms(1,2) by (simp add: xy)
  have "0 \<le> real_of_int (i + j)" "real_of_int (i + j) < 2 ^ 63"
    unfolding v using assms(3,4) by simp_all
  then have "0 \<le> i + j" "i + j < 2 ^ 63"
    by simp_all
  then show ?thesis
    using v by (simp add: xy wrap_int64_id)
next
  case False
  then have "n_add x y = F64 (fadd (as_float x) (as_float y))"
    by (cases x; cases y) simp_all
  then show ?thesis
    using assms by (simp add: float64_of_small)
qed

lemma n_times_3_exact:
  assumes "as_float x = Finite a" "0 \<le> a" "3 * a < 2 ^ 63"
  shows "as_float (n_times x 3) = Finite (3 * a)"
proof (cases x)
  case (I64 i)
  have v: "real_of_int (i * 3) = 3 * a"
    using assms(1) by (simp add: I64)
  have "0 \<le> real_of_int (i * 3)" "real_of_int (i * 3) < 2 ^ 63"
    unfolding v using assms(2,3) by simp_all
  then have "0 \<le> i * 3" "i * 3 < 2 ^ 63"
    by simp_all
  then show ?thesis
    using v by (simp add: I64 wrap_int64_id)
next
  case (F64 f)
  have "float64_of (a * 3) = Finite (a * 3)"
    using assms(2,3) by (intro float64_of_small) simp_all
  then show ?thesis
    using assms(1) by (simp add: F64 mult.commute)
qed

lemma positive_value: "as_float x = Finite a \<Longrightarrow> positive x \<longleftrightarrow> 0 < a"
  by (simp add: positive_def)

lemma ratio_percent_value:
  assumes "as_float p = Finite a" "as_float w = Finite b"
  shows "ratio_percent p w = (if 0 < b then fmul (fdiv (Finite a) (Finite b)) (Finite 100) else Finite 0)"
  by (simp add: ratio_percent_def positive_value [OF assms(2)] assms)

lemma nonneg_ratio:
  "0 \<le> a \<Longrightarrow> nonneg64 (if 0 < b then fmul (fdiv (Finite a) (Finite b)) (Finite 100) else Finite 0)"
  by (auto intro!: nonneg_fmul simp: nonneg_float64_of)

lemma variance64_not_nan: "variance64 (Finite a) (Finite b) \<noteq> NaN"
  by (auto simp: variance64_def fsub_def float64_of_def)

lemma last_variance_value:
  "last_variance m = variance64 (as_float (savings_sum m)) (savings_goal m)"
  by (simp add: last_variance_def)

lemma column_total_exact:
  assumes "\<forall>r\<in>set rows. 0 \<le> f r"
    and "dt = Int64 \<longrightarrow> (\<forall>r\<in>set rows. f r \<in> \<int>)"
    and "sum_list (map f rows) < 2 ^ 63"
  shows "as_float (if rows \<noteq> [] then series_sum dt (map f rows) else I64 0)
     = Finite (sum_list (map f rows))"
proof (cases "rows = []")
  case True
  then show ?thesis by simp
next
  case False
  have "as_float (series_sum dt (map f rows)) = Finite (sum_list (map f rows))"
    using assms by (intro series_sum_exact) simp_all
  then show ?thesis
    using False by simp
qed

lemma key_figures_fields:
  "income_sum (key_figures dts st) =
     (if get_income_data st \<noteq> []
      then series_sum (income_dtype dts) (map inc_amount (get_income_data st)) else I64 0)"
  "essentials_sum (key_figures dts st) =
     (if get_essentials_data st \<noteq> []
      then series_sum (essentials_dtype dts) (map ess_actual (get_essentials_data st)) else I64 0)"
  "non_essentials_sum (key_figures dts st) =
     (if get_non_essentials_data st \<noteq> []
      then series_sum (non_essentials_dtype dts) (map ne_amount (get_non_essentials_data st))
      else I64 0)"
  "savings_sum (key_figures dts st) =
     (if get_savings_data st \<noteq> []
      then series_sum (savings_dtype dts) (map sav_deposit (get_savings_data st)) else I64 0)"
  "expenses_sum (key_figures dts st) =
     n_add (essentials_sum (key_figures dts st)) (non_essentials_sum (key_figures dts st))"
  "savings_goal (key_figures dts st) = fmul (as_float (income_sum (key_figures dts st))) (Finite 0.2)"
  "savings_percent (key_figures dts st) =
     ratio_percent (savings_sum (key_figures dts st)) (income_sum (key_figures dts st))"
  "expense_percent (key_figures dts st) =
     ratio_percent (expenses_sum (key_figures dts st)) (income_sum (key_figures dts st))"
  by (simp_all add: key_figures_def Let_def)

lemma components_fields:
  "savings_rate_score (health_score_components dts st) =
     py_min (fmul (fdiv (savings_percent (key_figures dts st)) (Finite 20)) (Finite 25)) (Finite 25)"
  "budget_adherence_score (health_score_components dts st) =
     py_max (Finite 0)
       (fsub (Finite 25)
          (fmul (fdiv (fabs (last_variance (key_figures dts st))) (Finite 10)) (Finite 25)))"
  "emergency_fund_score (health_score_components dts st) = emergency_fund (key_figures dts st)"
  "expense_control_score (health_score_components dts st) =
     (if flt (Finite 80) (expense_percent (key_figures dts st))
      then py_max (Finite 0)
             (fsub (Finite 25)
                (fmul (fdiv (fsub (expense_percent (key_figures dts st)) (Finite 80)) (Finite 20))
                   (Finite 25)))
      else Finite 25)"
  by (simp_all add: health_score_components_def Let_def)

lemma not_above_80: "nonneg64 x \<Longrightarrow> (\<not> flt (Finite 80) x) = between 0 80 x"
  by (cases x) auto

text \<open>
  Claim C2. Take a ledger whose listed amounts are all non-negative (a total income of 0
  included), whose int64 columns hold integers, and whose totals stay in the range of an
  int64: the income, the savings, and three times the expenses are below \<open>2 ^ 63\<close>. Then
  the totals of the score are the sums of the listed amounts; the savings rate and the
  expense ratio are the percentages of the income, 0 without income; the four components
  are the ones the claim gives, where the variance is that of the savings against the
  savings target, 20 percent of the income; the expense control is 25 exactly when the
  expense ratio is at most 80; each component is a finite number between 0 and 25; and
  the score is their sum and lies between 0 and 100.
\<close>

theorem health_score_in_range:
  assumes "\<forall>r\<in>set (get_income_data st). 0 \<le> inc_amount r"
    and "\<forall>r\<in>set (get_essentials_data st). 0 \<le> ess_actual r"
    and "\<forall>r\<in>set (get_non_essentials_data st). 0 \<le> ne_amount r"
    and "\<forall>r\<in>set (get_savings_data st). 0 \<le> sav_deposit r"
    and "income_dtype dts = Int64 \<longrightarrow> (\<forall>r\<in>set (get_income_data st). inc_amount r \<in> \<int>)"
    and "essentials_dtype dts = Int64 \<longrightarrow> (\<forall>r\<in>set (get_essentials_data st). ess_actual r \<in> \<int>)"
    and "non_essentials_dtype dts = Int64 \<longrightarrow>
           (\<forall>r\<in>set (get_non_essentials_data st). ne_amount r \<in> \<int>)"
    and "savings_dtype dts = Int64 \<longrightarrow> (\<forall>r\<in>set (get_savings_data st). sav_deposit r \<in> \<int>)"
    and "sum_list (map inc_amount (get_income_data st)) < 2 ^ 63"
    and "sum_list (map sav_deposit (get_savings_data st)) < 2 ^ 63"
    and "3 * (sum_list (map ess_actual (get_essentials_data st))
              + sum_list (map ne_amount (get_non_essentials_data st))) < 2 ^ 63"
  shows
    "(let inc = sum_list (map inc_amount (get_income_data st));
          ess = sum_list (map ess_actual (get_essentials_data st));
          non = sum_list (map ne_amount (get_non_essentials_data st));
          sav = sum_list (map sav_deposit (get_savings_data st));
          m = key_figures dts st;
          c = health_score_components dts st;
          sr = (if 0 < inc then fmul (fdiv (Finite sav) (Finite inc)) (Finite 100) else Finite 0);
          er = (if 0 < inc then fmul (fdiv (Finite (ess + non)) (Finite inc)) (Finite 100)
                else Finite 0);
          v = (if 0 < inc
               then fmul (fdiv (fsub (Finite sav) (Finite (inc * 0.2))) (Finite (inc * 0.2)))
                      (Finite 100)
               else Finite 0)
      in as_float (income_sum m) = Finite inc \<and>
         as_float (essentials_sum m) = Finite ess \<and>
         as_float (non_essentials_sum m) = Finite non \<and>
         as_float (savings_sum m) = Finite sav \<and>
         as_float (expenses_sum m) = Finite (ess + non) \<and>
         savings_percent m = sr \<and>
         expense_percent m = er \<and>
         last_variance m = v \<and>
         savings_rate_score c = py_min (fmul (fdiv sr (Finite 20)) (Finite 25)) (Finite 25) \<and>
         budget_adherence_score c =
           py_max (Finite 0) (fsub (Finite 25) (fmul (fdiv (fabs v) (Finite 10)) (Finite 25))) \<and>
         emergency_fund_score c =
           (if ess + non = 0 then Finite 0
            else py_min (fmul (fdiv (Finite sav) (Finite (3 * (ess + non)))) (Finite 25))
                   (Finite 25)) \<and>
         expense_control_score c =
           (if flt (Finite 80) er
            then py_max (Finite 0)
                   (fsub (Finite 25) (fmul (fdiv (fsub er (Finite 80)) (Finite 20)) (Finite 25)))
            else Finite 25) \<and>
         (\<not> flt (Finite 80) er) = between 0 80 er \<and>
         (\<exists>a1 a2 a3 a4.
            savings_rate_score c = Finite a1 \<and> 0 \<le> a1 \<and> a1 \<le> 25 \<and>
            budget_adherence_score c = Finite a2 \<and> 0 \<le> a2 \<and> a2 \<le> 25 \<and>
            emergency_fund_score c = Finite a3 \<and> 0 \<le> a3 \<and> a3 \<le> 25 \<and>
            expense_control_score c = Finite a4 \<and> 0 \<le> a4 \<and> a4 \<le> 25 \<and>
            health_score dts st = Finite (a1 + a2 + a3 + a4) \<and>
            0 \<le> a1 + a2 + a3 + a4 \<and> a1 + a2 + a3 + a4 \<le> 100))"
proof -
  define inc where "inc = sum_list (map inc_amount (get_income_data st))"
  define ess where "ess = sum_list (map ess_actual (get_essentials_data st))"
  define non where "non = sum_list (map ne_amount (get_non_essentials_data st))"
  define sav where "sav = sum_list (map sav_deposit (get_savings_data st))"
  define m where "m = key_figures dts st"
  define c where "c = health_score_components dts st"
  define sr where
    "sr = (if 0 < inc then fmul (fdiv (Finite sav) (Finite inc)) (Finite 100) else Finite 0)"
  define er where
    "er = (if 0 < inc then fmul (fdiv (Finite (ess + non)) (Finite inc)) (Finite 100)
           else Finite 0)"
  define v where
    "v = (if 0 < inc
          then fmul (fdiv (fsub (Finite sav) (Finite (inc * 0.2))) (Finite (inc * 0.2)))
                 (Finite 100)
          else Finite 0)"
  have i0: "0 \<le> inc"
    unfolding inc_def using assms(1) by (intro sum_list_nonneg_real) simp
  have e0: "0 \<le> ess"
    unfolding ess_def using assms(2) by (intro sum_list_nonneg_real) simp
  have n0: "0 \<le> non"
    unfolding non_def using assms(3) by (intro sum_list_nonneg_real) simp
  have s0: "0 \<le> sav"
    unfolding sav_def using assms(4) by (intro sum_list_nonneg_real) simp
  have x3: "3 * (ess + non) < 2 ^ 63"
    unfolding ess_def non_def by (rule assms(11))
  have xb: "ess + non < 2 ^ 63" "ess < 2 ^ 63" "non < 2 ^ 63"
    using x3 e0 n0 by simp_all
  have ti: "as_float (income_sum m) = Finite inc"
    unfolding m_def key_figures_fields inc_def
    using assms(1,5,9) by (rule column_total_exact)
  have te: "as_float (essentials_sum m) = Finite ess"
    unfolding m_def key_figures_fields ess_def
    using assms(2,6) xb(2) [unfolded ess_def] by (rule column_total_exact)
  have tn: "as_float (non_essentials_sum m) = Finite non"
    unfolding m_def key_figures_fields non_def
    using assms(3,7) xb(3) [unfolded non_def] by (rule column_total_exact)
  have ts: "as_float (savings_sum m) = Finite sav"
    unfolding m_def key_figures_fields sav_def
    using assms(4,8,10) by (rule column_total_exact)
  have xs: "expenses_sum m = n_add (essentials_sum m) (non_essentials_sum m)"
    unfolding m_def by (rule key_figures_fields)
  have tx: "as_float (expenses_sum m) = Finite (ess + non)"
    unfolding xs using te tn e0 n0 xb(1) by (intro n_add_exact) simp_all
  have psr: "savings_percent m = sr"
    using ratio_percent_value [OF ts ti] by (simp add: m_def key_figures_fields sr_def)
  have per: "expense_percent m = er"
    using ratio_percent_value [OF tx ti] by (simp add: m_def key_figures_fields er_def)
  have goal: "savings_goal m = Finite (inc * 0.2)"
  proof -
    have "float64_of (inc * 0.2) = Finite (inc * 0.2)"
      using i0 assms(9) [folded inc_def] by (intro float64_of_small) simp_all
    then show ?thesis
      using ti by (simp add: m_def key_figures_fields)
  qed
  have lv: "last_variance m = v"
    using i0 by (simp add: last_variance_value ts goal variance64_def v_def)
  have vnan: "v \<noteq> NaN"
    using lv variance64_not_nan [of sav "inc * 0.2"]
    by (simp add: last_variance_value ts goal)
  have nsr: "nonneg64 sr"
    unfolding sr_def using s0 by (rule nonneg_ratio)
  have ner: "nonneg64 er"
    unfolding er_def using e0 n0 by (intro nonneg_ratio) simp
  have f1: "savings_rate_score c = py_min (fmul (fdiv sr (Finite 20)) (Finite 25)) (Finite 25)"
    by (simp add: c_def components_fields psr [unfolded m_def])
  have f2: "budget_adherence_score c =
      py_max (Finite 0) (fsub (Finite 25) (fmul (fdiv (fabs v) (Finite 10)) (Finite 25)))"
    by (simp add: c_def components_fields lv [unfolded m_def])
  have times: "as_float (n_times (expenses_sum m) 3) = Finite (3 * (ess + non))"
    using tx e0 n0 x3 by (intro n_times_3_exact) simp_all
  have f3: "emergency_fund_score c =
      (if ess + non = 0 then Finite 0
       else py_min (fmul (fdiv (Finite sav) (Finite (3 * (ess + non)))) (Finite 25)) (Finite 25))"
    using e0 n0 positive_value [OF tx]
    by (simp add: c_def components_fields emergency_fund_def m_def [symmetric] ts times
        less_le)
  have f4: "expense_control_score c =
      (if flt (Finite 80) er
       then py_max (Finite 0)
              (fsub (Finite 25) (fmul (fdiv (fsub er (Finite 80)) (Finite 20)) (Finite 25)))
       else Finite 25)"
    by (simp add: c_def components_fields per [unfolded m_def])
  have le80: "(\<not> flt (Finite 80) er) = between 0 80 er"
    using ner by (rule not_above_80)
  have r1: "between 0 25 (savings_rate_score c)"
    unfolding f1 using nsr by (rule rate_range)
  have r2: "between 0 25 (budget_adherence_score c)"
    unfolding f2 using vnan by (rule adherence_range)
  have r3: "between 0 25 (emergency_fund_score c)"
  proof (cases "ess + non = 0")
    case True
    then show ?thesis by (simp add: f3)
  next
    case False
    then have "0 < 3 * (ess + non)"
      using e0 n0 by simp
    then have "nonneg64 (fdiv (Finite sav) (Finite (3 * (ess + non))))"
      using s0 by (simp add: nonneg_float64_of)
    then have "between 0 25
        (py_min (fmul (fdiv (Finite sav) (Finite (3 * (ess + non)))) (Finite 25)) (Finite 25))"
      by (intro min_25 nonneg_fmul) simp_all
    then show ?thesis
      using False by (simp add: f3)
  qed
  have r4: "between 0 25 (expense_control_score c)"
    unfolding f4 using ner by (rule control_range)
  obtain a1 where a1: "savings_rate_score c = Finite a1" "0 \<le> a1" "a1 \<le> 25"
    using between_value [OF r1] by blast
  obtain a2 where a2: "budget_adherence_score c = Finite a2" "0 \<le> a2" "a2 \<le> 25"
    using between_value [OF r2] by blast
  obtain a3 where a3: "emergency_fund_score c = Finite a3" "0 \<le> a3" "a3 \<le> 25"
    using between_value [OF r3] by blast
  obtain a4 where a4: "expense_control_score c = Finite a4" "0 \<le> a4" "a4 \<le> 25"
    using between_value [OF r4] by blast
  have hs: "health_score dts st = Finite (a1 + a2 + a3 + a4)"
    unfolding health_score_def total_score_def c_def [symmetric] a1(1) a2(1) a3(1) a4(1)
    using a1(2,3) a2(2,3) a3(2,3) a4(2,3) by (rule total_range)
  have range: "0 \<le> a1 + a2 + a3 + a4" "a1 + a2 + a3 + a4 \<le> 100"
    using a1(2,3) a2(2,3) a3(2,3) a4(2,3) by linarith+
  have scores: "\<exists>a1 a2 a3 a4.
      savings_rate_score c = Finite a1 \<and> 0 \<le> a1 \<and> a1 \<le> 25 \<and>
      budget_adherence_score c = Finite a2 \<and> 0 \<le> a2 \<and> a2 \<le> 25 \<and>
      emergency_fund_score c = Finite a3 \<and> 0 \<le> a3 \<and> a3 \<le> 25 \<and>
      expense_control_score c = Finite a4 \<and> 0 \<le> a4 \<and> a4 \<le> 25 \<and>
      health_score dts st = Finite (a1 + a2 + a3 + a4) \<and>
      0 \<le> a1 + a2 + a3 + a4 \<and> a1 + a2 + a3 + a4 \<le> 100"
    using a1 a2 a3 a4 hs range by blast
  have all: "as_float (income_sum m) = Finite inc \<and>
         as_float (essentials_sum m) = Finite ess \<and>
         as_float (non_essentials_sum m) = Finite non \<and>
         as_float (savings_sum m) = Finite sav \<and>
         as_float (expenses_sum m) = Finite (ess + non) \<and>
         savings_percent m = sr \<and>
         expense_percent m = er \<and>
         last_variance m = v \<and>
         savings_rate_score c = py_min (fmul (fdiv sr (Finite 20)) (Finite 25)) (Finite 25) \<and>
         budget_adherence_score c =
           py_max (Finite 0) (fsub (Finite 25) (fmul (fdiv (fabs v) (Finite 10)) (Finite 25))) \<and>
         emergency_fund_score c =
           (if ess + non = 0 then Finite 0
            else py_min (fmul (fdiv (Finite sav) (Finite (3 * (ess + non)))) (Finite 25))
                   (Finite 25)) \<and>
         expense_control_score c =
           (if flt (Finite 80) er
            then py_max (Finite 0)
                   (fsub (Finite 25) (fmul (fdiv (fsub er (Finite 80)) (Finite 20)) (Finite 25)))
            else Finite 25) \<and>
         (\<not> flt (Finite 80) er) = between 0 80 er \<and>
         (\<exists>a1 a2 a3 a4.
            savings_rate_score c = Finite a1 \<and> 0 \<le> a1 \<and> a1 \<le> 25 \<and>
            budget_adherence_score c = Finite a2 \<and> 0 \<le> a2 \<and> a2 \<le> 25 \<and>
            emergency_fund_score c = Finite a3 \<and> 0 \<le> a3 \<and> a3 \<le> 25 \<and>
            expense_control_score c = Finite a4 \<and> 0 \<le> a4 \<and> a4 \<le> 25 \<and>
            health_score dts st = Finite (a1 + a2 + a3 + a4) \<and>
            0 \<le> a1 + a2 + a3 + a4 \<and> a1 + a2 + a3 + a4 \<le> 100)"
    using ti te tn ts tx psr per lv f1 f2 f3 f4 le80 scores by (intro conjI)
  show ?thesis
    unfolding Let_def
    using all [unfolded inc_def ess_def non_def sav_def m_def c_def sr_def er_def v_def,
        folded inc_def ess_def non_def sav_def]
    unfolding inc_def ess_def non_def sav_def .
qed

theorem health_score_in_range_witness:
  "health_score_components float_columns example_ledger =
     \<lparr>savings_rate_score = Finite (75 / 4), budget_adherence_score = Finite 0,
      emergency_fund_score = Finite (25 / 18), expense_control_score = Finite (25 / 2)\<rparr> \<and>
   health_score float_columns example_ledger = Finite (1175 / 36) \<and>
   as_float (income_sum (key_figures integer_columns example_ledger)) = Finite 1000 \<and>
   as_float (expenses_sum (key_figures integer_columns example_ledger)) = Finite 900 \<and>
   health_score integer_columns example_ledger = Finite (1175 / 36) \<and>
   health_score float_columns no_income_store = Finite 50"
proof -
  have rows: "get_income_data example_ledger =
      [\<lparr>inc_description = ''salary'', inc_amount = 1000, inc_date = 738886\<rparr>]"
    "get_essentials_data example_ledger =
      [\<lparr>ess_category = ''Housing'', ess_expected = 500, ess_actual = 600\<rparr>]"
    "get_non_essentials_data example_ledger =
      [\<lparr>ne_expense = ''travel'', ne_amount = 300, ne_date = 738890, ne_notes = ''''\<rparr>]"
    "get_savings_data example_ledger = [\<lparr>sav_deposit = 150, sav_date = 738895\<rparr>]"
    by (simp_all add: getters example_ledger_def sort_values_desc_def)
  have rows0: "get_income_data no_income_store = []"
    "get_essentials_data no_income_store = []"
    "get_non_essentials_data no_income_store =
      [\<lparr>ne_expense = ''cinema'', ne_amount = 12, ne_date = 738886, ne_notes = ''''\<rparr>]"
    "get_savings_data no_income_store = []"
    by (simp_all add: getters no_income_store_def sort_values_desc_def)
  have h: "\<forall>r\<in>set (get_income_data example_ledger). 0 \<le> inc_amount r"
    "\<forall>r\<in>set (get_essentials_data example_ledger). 0 \<le> ess_actual r"
    "\<forall>r\<in>set (get_non_essentials_data example_ledger). 0 \<le> ne_amount r"
    "\<forall>r\<in>set (get_savings_data example_ledger). 0 \<le> sav_deposit r"
    "income_dtype dts = Int64 \<longrightarrow> (\<forall>r\<in>set (get_income_data example_ledger). inc_amount r \<in> \<int>)"
    "essentials_dtype dts = Int64 \<longrightarrow>
       (\<forall>r\<in>set (get_essentials_data example_ledger). ess_actual r \<in> \<int>)"
    "non_essentials_dtype dts = Int64 \<longrightarrow>
       (\<forall>r\<in>set (get_non_essentials_data example_ledger). ne_amount r \<in> \<int>)"
    "savings_dtype dts = Int64 \<longrightarrow>
       (\<forall>r\<in>set (get_savings_data example_ledger). sav_deposit r \<in> \<int>)"
    "sum_list (map inc_amount (get_income_data example_ledger)) < 2 ^ 63"
    "sum_list (map sav_deposit (get_savings_data example_ledger)) < 2 ^ 63"
    "3 * (sum_list (map ess_actual (get_essentials_data example_ledger))
          + sum_list (map ne_amount (get_non_essentials_data example_ledger))) < 2 ^ 63"
    for dts
    by (simp_all add: rows)
  have h0: "\<forall>r\<in>set (get_income_data no_income_store). 0 \<le> inc_amount r"
    "\<forall>r\<in>set (get_essentials_data no_income_store). 0 \<le> ess_actual r"
    "\<forall>r\<in>set (get_non_essentials_data no_income_store). 0 \<le> ne_amount r"
    "\<forall>r\<in>set (get_savings_data no_income_store). 0 \<le> sav_deposit r"
    "income_dtype float_columns = Int64 \<longrightarrow>
       (\<forall>r\<in>set (get_income_data no_income_store). inc_amount r \<in> \<int>)"
    "essentials_dtype float_columns = Int64 \<longrightarrow>
       (\<forall>r\<in>set (get_essentials_data no_income_store). ess_actual r \<in> \<int>)"
    "non_essentials_dtype float_columns = Int64 \<longrightarrow>
       (\<forall>r\<in>set (get_non_essentials_data no_income_store). ne_amount r \<in> \<int>)"
    "savings_dtype float_columns = Int64 \<longrightarrow>
       (\<forall>r\<in>set (get_savings_data no_income_store). sav_deposit r \<in> \<int>)"
    "sum_list (map inc_amount (get_income_data no_income_store)) < 2 ^ 63"
    "sum_list (map sav_deposit (get_savings_data no_income_store)) < 2 ^ 63"
    "3 * (sum_list (map ess_actual (get_essentials_data no_income_store))
          + sum_list (map ne_amount (get_non_essentials_data no_income_store))) < 2 ^ 63"
    by (simp_all add: rows0)
  have floats: "health_score_components float_columns example_ledger =
     \<lparr>savings_rate_score = Finite (75 / 4), budget_adherence_score = Finite 0,
      emergency_fund_score = Finite (25 / 18), expense_control_score = Finite (25 / 2)\<rparr>"
    by (simp add: health_score_components_def key_figures_def last_variance_def variance64_def
        emergency_fund_def ratio_percent_def positive_def series_sum_def float_columns_def
        float64_of_def max_float64_def fsub_def py_min_def py_max_def Let_def rows)
  have ints: "health_score_components integer_columns example_ledger =
     \<lparr>savings_rate_score = Finite (75 / 4), budget_adherence_score = Finite 0,
      emergency_fund_score = Finite (25 / 18), expense_control_score = Finite (25 / 2)\<rparr>"
    by (simp add: health_score_components_def key_figures_def last_variance_def variance64_def
        emergency_fund_def ratio_percent_def positive_def series_sum_def integer_columns_def
        float64_of_def max_float64_def wrap_int64_def fsub_def py_min_def py_max_def Let_def rows)
  have none: "health_score_components float_columns no_income_store =
     \<lparr>savings_rate_score = Finite 0, budget_adherence_score = Finite 25,
      emergency_fund_score = Finite 0, expense_control_score = Finite 25\<rparr>"
    by (simp add: health_score_components_def key_figures_def last_variance_def variance64_def
        emergency_fund_def ratio_percent_def positive_def series_sum_def float_columns_def
        float64_of_def max_float64_def fsub_def py_min_def py_max_def Let_def rows0)
  note on_floats = health_score_in_range [of example_ledger float_columns, OF h, unfolded Let_def]
  note on_ints = health_score_in_range [of example_ledger integer_columns, OF h, unfolded Let_def]
  note without_income = health_score_in_range [OF h0, unfolded Let_def]
  obtain a1 a2 a3 a4 where
    "savings_rate_score (health_score_components float_columns example_ledger) = Finite a1"
    "budget_adherence_score (health_score_components float_columns example_ledger) = Finite a2"
    "emergency_fund_score (health_score_components float_columns example_ledger) = Finite a3"
    "expense_control_score (health_score_components float_columns example_ledger) = Finite a4"
    "health_score float_columns example_ledger = Finite (a1 + a2 + a3 + a4)"
    using on_floats by (elim conjE exE)
  then have a: "health_score float_columns example_ledger = Finite (1175 / 36)"
    by (simp add: floats)
  have b: "as_float (income_sum (key_figures integer_columns example_ledger)) = Finite 1000"
    "as_float (expenses_sum (key_figures integer_columns example_ledger)) = Finite 900"
    using on_ints by (simp_all add: rows)
  obtain b1 b2 b3 b4 where
    "savings_rate_score (health_score_components integer_columns example_ledger) = Finite b1"
    "budget_adherence_score (health_score_components integer_columns example_ledger) = Finite b2"
    "emergency_fund_score (health_score_components integer_columns example_ledger) = Finite b3"
    "expense_control_score (health_score_components integer_columns example_ledger) = Finite b4"
    "health_score integer_columns example_ledger = Finite (b1 + b2 + b3 + b4)"
    using on_ints by (elim conjE exE)
  then have c: "health_score integer_columns example_ledger = Finite (1175 / 36)"
    by (simp add: ints)
  obtain c1 c2 c3 c4 where
    "savings_rate_score (health_score_components float_columns no_income_store) = Finite c1"
    "budget_adherence_score (health_score_components float_columns no_income_store) = Finite c2"
    "emergency_fund_score (health_score_components float_columns no_income_store) = Finite c3"
    "expense_control_score (health_score_components float_columns no_income_store) = Finite c4"
    "health_score float_columns no_income_store = Finite (c1 + c2 + c3 + c4)"
    using without_income by (elim conjE exE)
  then have d: "health_score float_columns no_income_store = Finite 50"
    by (simp add: none)
  show ?thesis
    using floats a b c d by simp
qed

text \<open>
  The claim as stated fails when a total leaves the range of an int64. With an income of
  1000 and the two deposits 9223372036854775807 and 1 in an int64 column, the total of
  the savings wraps around to \<open>- 2 ^ 63\<close>; \<^verbatim>\<open>min\<close> bounds the savings rate component
  from above only, so the component is far below 0, and so is the score.
\<close>

theorem wrapping_deposits_counterexample:
  "map inc_amount (get_income_data wrapping_savings) = [1000] \<and>
   map sav_deposit (get_savings_data wrapping_savings) = [1, 9223372036854775807] \<and>
   savings_sum (key_figures integer_savings wrapping_savings) = I64 (- 9223372036854775808) \<and>
   health_score_components integer_savings wrapping_savings =
     \<lparr>savings_rate_score = Finite (- 1152921504606846976), budget_adherence_score = Finite 0,
      emergency_fund_score = Finite 0, expense_control_score = Finite 25\<rparr> \<and>
   health_score integer_savings wrapping_savings = Finite (- 1152921504606846951)"
proof -
  have rows: "get_income_data wrapping_savings =
      [\<lparr>inc_description = ''salary'', inc_amount = 1000, inc_date = 738886\<rparr>]"
    "get_essentials_data wrapping_savings = []"
    "get_non_essentials_data wrapping_savings = []"
    "get_savings_data wrapping_savings =
      [\<lparr>sav_deposit = 1, sav_date = 738887\<rparr>,
       \<lparr>sav_deposit = 9223372036854775807, sav_date = 738886\<rparr>]"
    by (simp_all add: getters wrapping_savings_def sort_values_desc_def)
  have total: "savings_sum (key_figures integer_savings wrapping_savings)
      = I64 (- 9223372036854775808)"
    by (simp add: key_figures_def series_sum_def integer_savings_def wrap_int64_def Let_def rows)
  have comps: "health_score_components integer_savings wrapping_savings =
     \<lparr>savings_rate_score = Finite (- 1152921504606846976), budget_adherence_score = Finite 0,
      emergency_fund_score = Finite 0, expense_control_score = Finite 25\<rparr>"
    by (simp add: health_score_components_def key_figures_def last_variance_def variance64_def
        emergency_fund_def ratio_percent_def positive_def series_sum_def integer_savings_def
        float64_of_def max_float64_def wrap_int64_def fsub_def py_min_def py_max_def Let_def rows)
  have score: "health_score integer_savings wrapping_savings = Finite (- 1152921504606846951)"
    by (simp add: health_score_def total_score_def comps float64_of_def max_float64_def)
  show ?thesis
    using total comps score by (simp add: rows)
qed

section \<open>Properties of the bills and the trends\<close>

lemma resort_filtered:
  "sorted (map col df) \<Longrightarrow> sort_values col (filter P df) = filter P df"
  unfolding sort_values_def by (rule sort_key_id_if_sorted) (rule sorted_filter)

lemma listed_bills_mset:
  "mset (get_bills_data st) = mset (case bills_csv st of Unreadable \<Rightarrow> [] | Rows rs \<Rightarrow> rs)"
  by (simp add: getters sort_values_def split: csv_file.splits)

text \<open>
  Claim C6. For every store, day and horizon the overdue bills are the listed bills that
  are \<^verbatim>\<open>Unpaid\<close> and due before today, the upcoming bills are the listed bills that are
  \<^verbatim>\<open>Unpaid\<close> and due from today to today plus the horizon, both in the order of the
  listing, which is ascending by due date; no bill is in both. As multisets they are
  exactly the rows of the bills file with these properties (none when the file cannot be
  read), which does not depend on the order the sort gives to bills due on the same day.
\<close>

theorem overdue_and_upcoming_bills:
  "get_overdue_bills st today =
     filter (\<lambda>b. status b = ''Unpaid'' \<and> due_date b < today) (get_bills_data st) \<and>
   mset (get_overdue_bills st today) =
     filter_mset (\<lambda>b. status b = ''Unpaid'' \<and> due_date b < today)
       (mset (case bills_csv st of Unreadable \<Rightarrow> [] | Rows rs \<Rightarrow> rs)) \<and>
   sorted (map due_date (get_overdue_bills st today)) \<and>
   get_upcoming_bills st today horizon =
     filter (\<lambda>b. status b = ''Unpaid'' \<and> today \<le> due_date b \<and> due_date b \<le> today + horizon)
       (get_bills_data st) \<and>
   mset (get_upcoming_bills st today horizon) =
     filter_mset (\<lambda>b. status b = ''Unpaid'' \<and> today \<le> due_date b \<and> due_date b \<le> today + horizon)
       (mset (case bills_csv st of Unreadable \<Rightarrow> [] | Rows rs \<Rightarrow> rs)) \<and>
   sorted (map due_date (get_upcoming_bills st today horizon)) \<and>
   set (get_overdue_bills st today) \<inter> set (get_upcoming_bills st today horizon) = {}"
proof -
  let ?bills = "get_bills_data st"
  have s: "sorted (map due_date ?bills)"
    by (rule bills_listing_sorted)
  have o: "get_overdue_bills st today =
     filter (\<lambda>b. status b = ''Unpaid'' \<and> due_date b < today) ?bills"
    by (simp add: get_overdue_bills_def Let_def resort_filtered [OF s])
  have u: "get_upcoming_bills st today horizon =
     filter (\<lambda>b. status b = ''Unpaid'' \<and> today \<le> due_date b \<and> due_date b \<le> today + horizon) ?bills"
    by (simp add: get_upcoming_bills_def Let_def resort_filtered [OF s])
  have mo: "mset (get_overdue_bills st today) =
     filter_mset (\<lambda>b. status b = ''Unpaid'' \<and> due_date b < today)
       (mset (case bills_csv st of Unreadable \<Rightarrow> [] | Rows rs \<Rightarrow> rs))"
    unfolding o by (simp only: mset_filter listed_bills_mset)
  have mu: "mset (get_upcoming_bills st today horizon) =
     filter_mset (\<lambda>b. status b = ''Unpaid'' \<and> today \<le> due_date b \<and> due_date b \<le> today + horizon)
       (mset (case bills_csv st of Unreadable \<Rightarrow> [] | Rows rs \<Rightarrow> rs))"
    unfolding u by (simp only: mset_filter listed_bills_mset)
  have so: "sorted (map due_date (get_overdue_bills st today))"
    unfolding o using s by (rule sorted_filter)
  have su: "sorted (map due_date (get_upcoming_bills st today horizon))"
    unfolding u using s by (rule sorted_filter)
  have d: "set (get_overdue_bills st today) \<inter> set (get_upcoming_bills st today horizon) = {}"
    unfolding o u by auto
  show ?thesis
    using o u mo mu so su d by blast
qed

theorem overdue_and_upcoming_bills_witness:
  "get_overdue_bills scenario_bills 738890 =
     [\<lparr>bill_name = ''A'', amount_due = 100, due_date = 738886, status = ''Unpaid''\<rparr>] \<and>
   get_upcoming_bills scenario_bills 738890 7 = [] \<and>
   get_upcoming_bills example_bills 738000 7 =
     [\<lparr>bill_name = ''A'', amount_due = 100, due_date = 738000, status = ''Unpaid''\<rparr>]"
  using overdue_and_upcoming_bills [of scenario_bills 738890 7]
    overdue_and_upcoming_bills [of example_bills 738000 7]
  by (simp add: getters scenario_bills_def example_bills_def sort_values_def)

subsection \<open>Trend series\<close>

lemma groupby_sum_keys: "map fst (groupby_sum col val df) = sort (remdups (map col df))"
  by (simp add: groupby_sum_def comp_def)

lemma groupby_sum_sorted:
  "sorted (map fst (groupby_sum col val df))" "distinct (map fst (groupby_sum col val df))"
  by (simp_all add: groupby_sum_keys)

lemma groupby_sum_dates: "fst ` set (groupby_sum col val df) = col ` set df"
proof -
  have "set (map fst (groupby_sum col val df)) = set (sort (remdups (map col df)))"
    by (simp only: groupby_sum_keys)
  then show ?thesis by simp
qed

lemma groupby_sum_entry:
  "(d, a) \<in> set (groupby_sum col val df) \<longleftrightarrow>
     d \<in> col ` set df \<and> a = sum_list (map val (filter (\<lambda>r. col r = d) df))"
  by (auto simp: groupby_sum_def)

lemma groupby_sum_lookup:
  "map_of (groupby_sum col val df) d =
     (if d \<in> col ` set df then Some (sum_list (map val (filter (\<lambda>r. col r = d) df))) else None)"
  by (simp add: groupby_sum_def map_of_map_restrict restrict_map_def)

lemma filter_window_date:
  "lo \<le> d \<Longrightarrow> d \<le> hi \<Longrightarrow>
     filter (\<lambda>r. lo \<le> col r \<and> col r \<le> hi \<and> col r = d) df = filter (\<lambda>r. col r = (d::int)) df"
  by (rule filter_cong) auto

lemma distinct_in_window:
  assumes "distinct ds" and "set ds \<subseteq> {lo..hi::int}"
  shows "length ds \<le> nat (hi - lo + 1)"
proof -
  have "length ds = card (set ds)"
    using assms(1) by (simp add: distinct_card)
  also have "\<dots> \<le> card {lo..hi}"
    by (rule card_mono) (use assms(2) in auto)
  also have "\<dots> = nat (hi - lo + 1)"
    by simp
  finally show ?thesis .
qed

lemma grouped_window:
  fixes col :: "'r \<Rightarrow> date" and today days :: int
  defines "recent \<equiv> \<lambda>df. filter (\<lambda>r. today - days \<le> col r \<and> col r \<le> today) df"
  shows "sorted (map fst (groupby_sum col val (recent df)))"
    and "distinct (map fst (groupby_sum col val (recent df)))"
    and "\<forall>(d, a) \<in> set (groupby_sum col val (recent df)).
           today - days \<le> d \<and> d \<le> today \<and> a = sum_list (map val (filter (\<lambda>r. col r = d) df))"
    and "\<forall>r \<in> set df. today - days \<le> col r \<and> col r \<le> today \<longrightarrow>
           col r \<in> fst ` set (groupby_sum col val (recent df))"
    and "length (groupby_sum col val (recent df)) \<le> nat (days + 1)"
proof -
  show "sorted (map fst (groupby_sum col val (recent df)))"
    and d: "distinct (map fst (groupby_sum col val (recent df)))"
    by (rule groupby_sum_sorted)+
  show "\<forall>(d, a) \<in> set (groupby_sum col val (recent df)).
           today - days \<le> d \<and> d \<le> today \<and> a = sum_list (map val (filter (\<lambda>r. col r = d) df))"
    by (auto simp: groupby_sum_entry recent_def filter_window_date)
  show "\<forall>r \<in> set df. today - days \<le> col r \<and> col r \<le> today \<longrightarrow>
           col r \<in> fst ` set (groupby_sum col val (recent df))"
    by (simp add: groupby_sum_dates recent_def)
  have "set (map fst (groupby_sum col val (recent df))) \<subseteq> {today - days..today}"
    using groupby_sum_dates [of col val "recent df"] by (auto simp: recent_def)
  from distinct_in_window [OF d this]
  show "length (groupby_sum col val (recent df)) \<le> nat (days + 1)"
    by simp
qed

lemma complete_data_entry:
  assumes "lo \<le> d" "d \<le> hi"
  shows "(case map_of (groupby_sum col val (filter (\<lambda>r. lo \<le> col r \<and> col r \<le> hi) df)) d of
            None \<Rightarrow> 0 | Some a \<Rightarrow> a)
         = sum_list (map val (filter (\<lambda>r. col r = d) df))"
proof (cases "d \<in> col ` set df")
  case True
  then show ?thesis
    using assms by (auto simp: groupby_sum_lookup filter_window_date)
next
  case False
  then have "filter (\<lambda>r. col r = d) df = []"
    by (auto simp: filter_empty_conv)
  then show ?thesis
    using False by (auto simp: groupby_sum_lookup)
qed

lemma chart_series:
  assumes "\<exists>r\<in>set data. today - days \<le> ne_date r \<and> ne_date r \<le> today"
  shows "create_spending_trend_chart data today days =
     Trend (map (\<lambda>d. (d, sum_list (map ne_amount (filter (\<lambda>r. ne_date r = d) data))))
              [today - days..today])"
proof -
  have ne: "data \<noteq> []" using assms by auto
  have recent: "filter (\<lambda>r. today - days \<le> ne_date r \<and> ne_date r \<le> today) data \<noteq> []"
    using assms by (auto simp: filter_empty_conv)
  have "map (\<lambda>d. (d, case map_of (groupby_sum ne_date ne_amount
                (filter (\<lambda>r. today - days \<le> ne_date r \<and> ne_date r \<le> today) data)) d of
              None \<Rightarrow> 0 | Some a \<Rightarrow> a)) [today - days..today]
      = map (\<lambda>d. (d, sum_list (map ne_amount (filter (\<lambda>r. ne_date r = d) data))))
              [today - days..today]"
    by (rule map_cong) (simp_all add: complete_data_entry)
  then show ?thesis
    using ne recent by (simp add: create_spending_trend_chart_def Let_def)
qed

lemma cumsum_from_length: "length (cumsum_from acc xs) = length xs"
  by (induction xs arbitrary: acc) auto

lemma cumsum_from_nth:
  "i < length xs \<Longrightarrow> cumsum_from acc xs ! i = acc + sum_list (take (Suc i) xs)"
proof (induction xs arbitrary: acc i)
  case Nil
  then show ?case by simp
next
  case (Cons x xs)
  show ?case
  proof (cases i)
    case 0
    then show ?thesis by simp
  next
    case (Suc j)
    then have "j < length xs" using Cons.prems by simp
    from Cons.IH [OF this, of "acc + x"] show ?thesis
      using Suc by (simp add: add.assoc)
  qed
qed

lemma savings_listing_newest_first: "sorted (rev (map sav_date (get_savings_data st)))"
  by (simp add: getters sort_values_desc_def rev_map [symmetric] split: csv_file.splits)

lemma newest_first_filter:
  "sorted (rev (map col df)) \<Longrightarrow> sorted (rev (map col (filter P df)))"
proof -
  assume "sorted (rev (map col df))"
  then have "sorted (map col (rev df))" by (simp add: rev_map)
  then have "sorted (map col (filter P (rev df)))" by (rule sorted_filter)
  then show ?thesis by (simp add: rev_map rev_filter)
qed

lemma savings_series:
  fixes st today days
  defines "recent \<equiv> filter (\<lambda>r. today - days \<le> sav_date r \<and> sav_date r \<le> today) (get_savings_data st)"
  shows "(savings_trend (get_spending_trends st today days) = None \<longleftrightarrow> get_savings_data st = [])"
    and "\<forall>series. savings_trend (get_spending_trends st today days) = Some series \<longrightarrow>
      map fst series = recent \<and>
      sorted (rev (map (\<lambda>e. sav_date (fst e)) series)) \<and>
      (\<forall>i<length series.
         snd (series ! i) = sum_list (map (\<lambda>e. sav_deposit (fst e)) (take (Suc i) series)))"
proof -
  show "savings_trend (get_spending_trends st today days) = None \<longleftrightarrow> get_savings_data st = []"
    by (simp add: get_spending_trends_def Let_def)
  let ?series = "zip recent (cumsum (map sav_deposit recent))"
  have len: "length (cumsum (map sav_deposit recent)) = length recent"
    by (simp add: cumsum_def cumsum_from_length)
  have keys: "map fst ?series = recent"
    using len by simp
  have order: "sorted (rev (map (\<lambda>e. sav_date (fst e)) ?series))"
  proof -
    have "map (\<lambda>e. sav_date (fst e)) ?series = map sav_date (map fst ?series)"
      by (simp add: comp_def)
    also have "\<dots> = map sav_date recent"
      by (simp only: keys)
    finally show ?thesis
      using newest_first_filter [OF savings_listing_newest_first] by (simp add: recent_def)
  qed
  have running: "\<forall>i<length ?series.
         snd (?series ! i) = sum_list (map (\<lambda>e. sav_deposit (fst e)) (take (Suc i) ?series))"
  proof (intro allI impI)
    fix i assume i: "i < length ?series"
    then have ir: "i < length recent" by simp
    have "snd (?series ! i) = cumsum (map sav_deposit recent) ! i"
      using i by simp
    also have "\<dots> = sum_list (take (Suc i) (map sav_deposit recent))"
      using ir by (simp add: cumsum_def cumsum_from_nth)
    also have "\<dots> = sum_list (map sav_deposit (take (Suc i) (map fst ?series)))"
      by (simp only: keys take_map)
    also have "\<dots> = sum_list (map (\<lambda>e. sav_deposit (fst e)) (take (Suc i) ?series))"
      by (simp add: take_map comp_def)
    finally show "snd (?series ! i) = sum_list (map (\<lambda>e. sav_deposit (fst e)) (take (Suc i) ?series))" .
  qed
  show "\<forall>series. savings_trend (get_spending_trends st today days) = Some series \<longrightarrow>
      map fst series = recent \<and>
      sorted (rev (map (\<lambda>e. sav_date (fst e)) series)) \<and>
      (\<forall>i<length series.
         snd (series ! i) = sum_list (map (\<lambda>e. sav_deposit (fst e)) (take (Suc i) series)))"
    using keys order running
    by (auto simp: get_spending_trends_def Let_def recent_def)
qed

lemma trend_series_exact:
  "(non_essentials_trend (get_spending_trends st today days) = None
      \<longleftrightarrow> get_non_essentials_data st = []) \<and>
   (income_trend (get_spending_trends st today days) = None \<longleftrightarrow> get_income_data st = []) \<and>
   (savings_trend (get_spending_trends st today days) = None \<longleftrightarrow> get_savings_data st = []) \<and>
   (\<forall>series. non_essentials_trend (get_spending_trends st today days) = Some series \<longrightarrow>
      sorted (map fst series) \<and> distinct (map fst series) \<and> length series \<le> nat (days + 1) \<and>
      (\<forall>(d, a) \<in> set series. today - days \<le> d \<and> d \<le> today \<and>
         a = sum_list (map ne_amount (filter (\<lambda>r. ne_date r = d) (get_non_essentials_data st)))) \<and>
      (\<forall>r \<in> set (get_non_essentials_data st).
         today - days \<le> ne_date r \<and> ne_date r \<le> today \<longrightarrow> ne_date r \<in> fst ` set series)) \<and>
   (\<forall>series. income_trend (get_spending_trends st today days) = Some series \<longrightarrow>
      sorted (map fst series) \<and> distinct (map fst series) \<and> length series \<le> nat (days + 1) \<and>
      (\<forall>(d, a) \<in> set series. today - days \<le> d \<and> d \<le> today \<and>
         a = sum_list (map inc_amount (filter (\<lambda>r. inc_date r = d) (get_income_data st)))) \<and>
      (\<forall>r \<in> set (get_income_data st).
         today - days \<le> inc_date r \<and> inc_date r \<le> today \<longrightarrow> inc_date r \<in> fst ` set series)) \<and>
   (\<forall>series. savings_trend (get_spending_trends st today days) = Some series \<longrightarrow>
      map fst series =
        filter (\<lambda>r. today - days \<le> sav_date r \<and> sav_date r \<le> today) (get_savings_data st) \<and>
      sorted (rev (map (\<lambda>e. sav_date (fst e)) series)) \<and>
      (\<forall>i<length series.
         snd (series ! i) = sum_list (map (\<lambda>e. sav_deposit (fst e)) (take (Suc i) series)))) \<and>
   (create_spending_trend_chart data today days = NoData \<longleftrightarrow> data = []) \<and>
   ((\<exists>r\<in>set data. today - days \<le> ne_date r \<and> ne_date r \<le> today) \<longrightarrow>
      (\<exists>series. create_spending_trend_chart data today days = Trend series \<and>
         int (length series) = days + 1 \<and>
         map fst series = [today - days..today] \<and>
         (\<forall>(d, a) \<in> set series.
            a = sum_list (map ne_amount (filter (\<lambda>r. ne_date r = d) data))))) \<and>
   (data \<noteq> [] \<and> \<not> (\<exists>r\<in>set data. today - days \<le> ne_date r \<and> ne_date r \<le> today) \<longrightarrow>
      create_spending_trend_chart data today days = NoRecentData days)"
proof -
  let ?t = "get_spending_trends st today days"
  have none: "non_essentials_trend ?t = None \<longleftrightarrow> get_non_essentials_data st = []"
    "income_trend ?t = None \<longleftrightarrow> get_income_data st = []"
    by (simp_all add: get_spending_trends_def Let_def)
  have ne: "\<forall>series. non_essentials_trend ?t = Some series \<longrightarrow>
      sorted (map fst series) \<and> distinct (map fst series) \<and> length series \<le> nat (days + 1) \<and>
      (\<forall>(d, a) \<in> set series. today - days \<le> d \<and> d \<le> today \<and>
         a = sum_list (map ne_amount (filter (\<lambda>r. ne_date r = d) (get_non_essentials_data st)))) \<and>
      (\<forall>r \<in> set (get_non_essentials_data st).
         today - days \<le> ne_date r \<and> ne_date r \<le> today \<longrightarrow> ne_date r \<in> fst ` set series)"
    using grouped_window [where col = ne_date and val = ne_amount and today = today and days = days
        and df = "get_non_essentials_data st"]
    by (simp add: get_spending_trends_def Let_def)
  have inc: "\<forall>series. income_trend ?t = Some series \<longrightarrow>
      sorted (map fst series) \<and> distinct (map fst series) \<and> length series \<le> nat (days + 1) \<and>
      (\<forall>(d, a) \<in> set series. today - days \<le> d \<and> d \<le> today \<and>
         a = sum_list (map inc_amount (filter (\<lambda>r. inc_date r = d) (get_income_data st)))) \<and>
      (\<forall>r \<in> set (get_income_data st).
         today - days \<le> inc_date r \<and> inc_date r \<le> today \<longrightarrow> inc_date r \<in> fst ` set series)"
    using grouped_window [where col = inc_date and val = inc_amount and today = today and days = days
        and df = "get_income_data st"]
    by (simp add: get_spending_trends_def Let_def)
  have sav: "savings_trend ?t = None \<longleftrightarrow> get_savings_data st = []"
    "\<forall>series. savings_trend ?t = Some series \<longrightarrow>
      map fst series =
        filter (\<lambda>r. today - days \<le> sav_date r \<and> sav_date r \<le> today) (get_savings_data st) \<and>
      sorted (rev (map (\<lambda>e. sav_date (fst e)) series)) \<and>
      (\<forall>i<length series.
         snd (series ! i) = sum_list (map (\<lambda>e. sav_deposit (fst e)) (take (Suc i) series)))"
    by (rule savings_series)+
  have nodata: "create_spending_trend_chart data today days = NoData \<longleftrightarrow> data = []"
    by (simp add: create_spending_trend_chart_def Let_def)
  have chart: "(\<exists>r\<in>set data. today - days \<le> ne_date r \<and> ne_date r \<le> today) \<longrightarrow>
      (\<exists>series. create_spending_trend_chart data today days = Trend series \<and>
         int (length series) = days + 1 \<and>
         map fst series = [today - days..today] \<and>
         (\<forall>(d, a) \<in> set series.
            a = sum_list (map ne_amount (filter (\<lambda>r. ne_date r = d) data))))"
  proof
    assume w: "\<exists>r\<in>set data. today - days \<le> ne_date r \<and> ne_date r \<le> today"
    then have d0: "0 \<le> days" by auto
    let ?series = "map (\<lambda>d. (d, sum_list (map ne_amount (filter (\<lambda>r. ne_date r = d) data))))
              [today - days..today]"
    have c: "create_spending_trend_chart data today days = Trend ?series"
      using w by (rule chart_series)
    have l: "int (length ?series) = days + 1"
      using d0 by simp
    have k: "map fst ?series = [today - days..today]"
      by (simp add: comp_def)
    have v: "\<forall>(d, a) \<in> set ?series.
            a = sum_list (map ne_amount (filter (\<lambda>r. ne_date r = d) data))"
      by auto
    show "\<exists>series. create_spending_trend_chart data today days = Trend series \<and>
         int (length series) = days + 1 \<and>
         map fst series = [today - days..today] \<and>
         (\<forall>(d, a) \<in> set series.
            a = sum_list (map ne_amount (filter (\<lambda>r. ne_date r = d) data)))"
      using c l k v by blast
  qed
  have norecent: "data \<noteq> [] \<and> \<not> (\<exists>r\<in>set data. today - days \<le> ne_date r \<and> ne_date r \<le> today) \<longrightarrow>
      create_spending_trend_chart data today days = NoRecentData days"
    by (auto simp: create_spending_trend_chart_def Let_def filter_empty_conv)
  show ?thesis
    using none sav ne inc nodata chart norecent by blast
qed

text \<open>
  Claim C1, as the code has it. \<^verbatim>\<open>get_spending_trends\<close> has no series for an empty frame.
  A series it returns for the expenses or for the income has its dates ascending without
  repetition and inside the window from \<open>today - days\<close> to \<open>today\<close>, so at most
  \<open>days + 1\<close> entries; every date of the window on which there is an entry is listed,
  and each listed date carries the sum of the amounts of that date. The series it returns
  for the savings is not grouped: it has one entry for each deposit of the window, in the
  order of the listing, newest first, and each entry carries the running total of the
  deposits up to it in that order. The series that \<^verbatim>\<open>create_spending_trend_chart\<close> plots
  covers the whole window: when some expense lies in the window it has \<open>days + 1\<close>
  entries, one for each date from \<open>today - days\<close> to \<open>today\<close> in order, with the sum of
  the amounts of the date, which is 0 for a date without expenses. Without an expense in
  the window the chart shows a message and no series. The sums are stated for amounts
  whose absolute values add up to less than \<open>2 ^ 63\<close>, where a sum of pandas does not
  wrap around.
\<close>

theorem spending_trend_series:
  "(non_essentials_trend (get_spending_trends st today days) = None
      \<longleftrightarrow> get_non_essentials_data st = []) \<and>
   (income_trend (get_spending_trends st today days) = None \<longleftrightarrow> get_income_data st = []) \<and>
   (savings_trend (get_spending_trends st today days) = None \<longleftrightarrow> get_savings_data st = []) \<and>
   (\<forall>series. non_essentials_trend (get_spending_trends st today days) = Some series \<longrightarrow>
      sorted (map fst series) \<and> distinct (map fst series) \<and> length series \<le> nat (days + 1) \<and>
      (\<forall>(d, a) \<in> set series. today - days \<le> d \<and> d \<le> today \<and>
         (sum_list (map (\<lambda>r. \<bar>ne_amount r\<bar>)
              (filter (\<lambda>r. ne_date r = d) (get_non_essentials_data st))) < 2 ^ 63 \<longrightarrow>
          a = sum_list (map ne_amount (filter (\<lambda>r. ne_date r = d) (get_non_essentials_data st))))) \<and>
      (\<forall>r \<in> set (get_non_essentials_data st).
         today - days \<le> ne_date r \<and> ne_date r \<le> today \<longrightarrow> ne_date r \<in> fst ` set series)) \<and>
   (\<forall>series. income_trend (get_spending_trends st today days) = Some series \<longrightarrow>
      sorted (map fst series) \<and> distinct (map fst series) \<and> length series \<le> nat (days + 1) \<and>
      (\<forall>(d, a) \<in> set series. today - days \<le> d \<and> d \<le> today \<and>
         (sum_list (map (\<lambda>r. \<bar>inc_amount r\<bar>)
              (filter (\<lambda>r. inc_date r = d) (get_income_data st))) < 2 ^ 63 \<longrightarrow>
          a = sum_list (map inc_amount (filter (\<lambda>r. inc_date r = d) (get_income_data st))))) \<and>
      (\<forall>r \<in> set (get_income_data st).
         today - days \<le> inc_date r \<and> inc_date r \<le> today \<longrightarrow> inc_date r \<in> fst ` set series)) \<and>
   (\<forall>series. savings_trend (get_spending_trends st today days) = Some series \<longrightarrow>
      map fst series =
        filter (\<lambda>r. today - days \<le> sav_date r \<and> sav_date r \<le> today) (get_savings_data st) \<and>
      sorted (rev (map (\<lambda>e. sav_date (fst e)) series)) \<and>
      (\<forall>i<length series.
         sum_list (map (\<lambda>e. \<bar>sav_deposit (fst e)\<bar>) (take (Suc i) series)) < 2 ^ 63 \<longrightarrow>
         snd (series ! i) = sum_list (map (\<lambda>e. sav_deposit (fst e)) (take (Suc i) series)))) \<and>
   (create_spending_trend_chart data today days = NoData \<longleftrightarrow> data = []) \<and>
   ((\<exists>r\<in>set data. today - days \<le> ne_date r \<and> ne_date r \<le> today) \<longrightarrow>
      (\<exists>series. create_spending_trend_chart data today days = Trend series \<and>
         int (length series) = days + 1 \<and>
         map fst series = [today - days..today] \<and>
         (\<forall>(d, a) \<in> set series.
            sum_list (map (\<lambda>r. \<bar>ne_amount r\<bar>) (filter (\<lambda>r. ne_date r = d) data)) < 2 ^ 63 \<longrightarrow>
            a = sum_list (map ne_amount (filter (\<lambda>r. ne_date r = d) data))))) \<and>
   (data \<noteq> [] \<and> \<not> (\<exists>r\<in>set data. today - days \<le> ne_date r \<and> ne_date r \<le> today) \<longrightarrow>
      create_spending_trend_chart data today days = NoRecentData days)"
proof -
  note e = trend_series_exact [of st today days data]
  note e4 = e [THEN conjunct2, THEN conjunct2, THEN conjunct2, THEN conjunct1]
  note e5 = e [THEN conjunct2, THEN conjunct2, THEN conjunct2, THEN conjunct2, THEN conjunct1]
  note e6 = e [THEN conjunct2, THEN conjunct2, THEN conjunct2, THEN conjunct2, THEN conjunct2,
      THEN conjunct1]
  note e8 = e [THEN conjunct2, THEN conjunct2, THEN conjunct2, THEN conjunct2, THEN conjunct2,
      THEN conjunct2, THEN conjunct2, THEN conjunct1]
  have ne: "\<forall>series. non_essentials_trend (get_spending_trends st today days) = Some series \<longrightarrow>
      sorted (map fst series) \<and> distinct (map fst series) \<and> length series \<le> nat (days + 1) \<and>
      (\<forall>(d, a) \<in> set series. today - days \<le> d \<and> d \<le> today \<and>
         (sum_list (map (\<lambda>r. \<bar>ne_amount r\<bar>)
              (filter (\<lambda>r. ne_date r = d) (get_non_essentials_data st))) < 2 ^ 63 \<longrightarrow>
          a = sum_list (map ne_amount (filter (\<lambda>r. ne_date r = d) (get_non_essentials_data st))))) \<and>
      (\<forall>r \<in> set (get_non_essentials_data st).
         today - days \<le> ne_date r \<and> ne_date r \<le> today \<longrightarrow> ne_date r \<in> fst ` set series)"
    using e4 by fastforce
  have inc: "\<forall>series. income_trend (get_spending_trends st today days) = Some series \<longrightarrow>
      sorted (map fst series) \<and> distinct (map fst series) \<and> length series \<le> nat (days + 1) \<and>
      (\<forall>(d, a) \<in> set series. today - days \<le> d \<and> d \<le> today \<and>
         (sum_list (map (\<lambda>r. \<bar>inc_amount r\<bar>)
              (filter (\<lambda>r. inc_date r = d) (get_income_data st))) < 2 ^ 63 \<longrightarrow>
          a = sum_list (map inc_amount (filter (\<lambda>r. inc_date r = d) (get_income_data st))))) \<and>
      (\<forall>r \<in> set (get_income_data st).
         today - days \<le> inc_date r \<and> inc_date r \<le> today \<longrightarrow> inc_date r \<in> fst ` set series)"
    using e5 by fastforce
  have sav: "\<forall>series. savings_trend (get_spending_trends st today days) = Some series \<longrightarrow>
      map fst series =
        filter (\<lambda>r. today - days \<le> sav_date r \<and> sav_date r \<le> today) (get_savings_data st) \<and>
      sorted (rev (map (\<lambda>e. sav_date (fst e)) series)) \<and>
      (\<forall>i<length series.
         sum_list (map (\<lambda>e. \<bar>sav_deposit (fst e)\<bar>) (take (Suc i) series)) < 2 ^ 63 \<longrightarrow>
         snd (series ! i) = sum_list (map (\<lambda>e. sav_deposit (fst e)) (take (Suc i) series)))"
    using e6 by blast
  have chart: "(\<exists>r\<in>set data. today - days \<le> ne_date r \<and> ne_date r \<le> today) \<longrightarrow>
      (\<exists>series. create_spending_trend_chart data today days = Trend series \<and>
         int (length series) = days + 1 \<and>
         map fst series = [today - days..today] \<and>
         (\<forall>(d, a) \<in> set series.
            sum_list (map (\<lambda>r. \<bar>ne_amount r\<bar>) (filter (\<lambda>r. ne_date r = d) data)) < 2 ^ 63 \<longrightarrow>
            a = sum_list (map ne_amount (filter (\<lambda>r. ne_date r = d) data))))"
    using e8 by fastforce
  show ?thesis
    using e [THEN conjunct1] e [THEN conjunct2, THEN conjunct1]
      e [THEN conjunct2, THEN conjunct2, THEN conjunct1] ne inc sav
      e [THEN conjunct2, THEN conjunct2, THEN conjunct2, THEN conjunct2, THEN conjunct2,
      THEN conjunct2, THEN conjunct1] chart
      e [THEN conjunct2, THEN conjunct2, THEN conjunct2, THEN conjunct2, THEN conjunct2,
      THEN conjunct2, THEN conjunct2, THEN conjunct2]
    by (intro conjI)
qed

lemma sparse_listing: "get_non_essentials_data sparse_store =
     [\<lparr>ne_expense = ''book'', ne_amount = 20, ne_date = 738888, ne_notes = ''''\<rparr>,
      \<lparr>ne_expense = ''lunch'', ne_amount = 10, ne_date = 738886, ne_notes = ''''\<rparr>]"
  by (simp add: getters sparse_store_def sparse_expenses_def sort_values_desc_def)

lemma sparse_trend:
  "non_essentials_trend (get_spending_trends sparse_store 738890 4) =
     Some [(738886, 10), (738888, 20)]"
  by (simp add: get_spending_trends_def Let_def sparse_listing groupby_sum_def)

lemma sparse_chart:
  "create_spending_trend_chart sparse_expenses 738890 4 =
     Trend [(738886, 10), (738887, 0), (738888, 20), (738889, 0), (738890, 0)]"
  by (simp add: create_spending_trend_chart_def Let_def sparse_expenses_def groupby_sum_def
      upto_rec1)

lemma two_deposits_listing:
  "get_savings_data two_deposits =
     [\<lparr>sav_deposit = 20, sav_date = 738889\<rparr>, \<lparr>sav_deposit = 10, sav_date = 738886\<rparr>]"
  by (simp add: getters two_deposits_def sort_values_desc_def)

lemma two_deposits_trend:
  "savings_trend (get_spending_trends two_deposits 738890 4) =
     Some [(\<lparr>sav_deposit = 20, sav_date = 738889\<rparr>, 20), (\<lparr>sav_deposit = 10, sav_date = 738886\<rparr>, 30)]"
  by (simp add: get_spending_trends_def Let_def two_deposits_listing cumsum_def)

theorem spending_trend_series_witness:
  "non_essentials_trend (get_spending_trends sparse_store 738890 4) =
     Some [(738886, 10), (738888, 20)] \<and>
   income_trend (get_spending_trends sparse_store 738890 4) = None \<and>
   savings_trend (get_spending_trends two_deposits 738890 4) =
     Some [(\<lparr>sav_deposit = 20, sav_date = 738889\<rparr>, 20), (\<lparr>sav_deposit = 10, sav_date = 738886\<rparr>, 30)] \<and>
   create_spending_trend_chart sparse_expenses 738890 4 =
     Trend [(738886, 10), (738887, 0), (738888, 20), (738889, 0), (738890, 0)] \<and>
   create_spending_trend_chart sparse_expenses 739000 4 = NoRecentData 4"
proof -
  have inside: "\<exists>r\<in>set sparse_expenses. 738890 - 4 \<le> ne_date r \<and> ne_date r \<le> 738890"
    by (simp add: sparse_expenses_def)
  have outside: "sparse_expenses \<noteq> [] \<and>
      \<not> (\<exists>r\<in>set sparse_expenses. 739000 - 4 \<le> ne_date r \<and> ne_date r \<le> 739000)"
    by (simp add: sparse_expenses_def)
  have no_income: "get_income_data sparse_store = []"
    by (simp add: getters sparse_store_def)
  show ?thesis
    using spending_trend_series [of sparse_store 738890 4 sparse_expenses]
      spending_trend_series [of sparse_store 739000 4 sparse_expenses]
      spending_trend_series [of two_deposits 738890 4 sparse_expenses]
      inside outside no_income sparse_trend sparse_chart two_deposits_trend
    by simp
qed

text \<open>
  The claim as stated fails on \<^verbatim>\<open>get_spending_trends\<close>: with expenses on the first and
  the third day of a window of five days the series has these two dates and no others,
  where the claim asks for five entries; and a store without expenses has no series at
  all.
\<close>

theorem sparse_trend_counterexample:
  "map_option (map fst) (non_essentials_trend (get_spending_trends sparse_store 738890 4)) =
     Some [738886, 738888] \<and>
   map_option length (non_essentials_trend (get_spending_trends sparse_store 738890 4)) = Some 2 \<and>
   non_essentials_trend (get_spending_trends scenario_bills 738890 4) = None"
  by (simp add: sparse_trend)
     (simp add: get_spending_trends_def Let_def getters scenario_bills_def)

section \<open>Properties of the settings\<close>

lemma map_of_dict_set: "map_of (dict_set d k v) = (map_of d)(k \<mapsto> v)"
  by (induction d) (auto simp: fun_eq_iff)

lemma dict_set_new: "k \<notin> fst ` set d \<Longrightarrow> dict_set d k v = d @ [(k, v)]"
  by (induction d) auto

lemma json_roundtrip: "json_native v \<Longrightarrow> json_decode (json_encode v) = v"
  by (induction v) (auto simp: list_all_iff map_idI)

lemma fold_dict_set_map_of:
  "distinct (map fst other) \<Longrightarrow>
     map_of (fold (\<lambda>(k, v) acc. dict_set acc k v) other d) = map_of d ++ map_of other"
proof (induction other arbitrary: d)
  case Nil
  then show ?case by simp
next
  case (Cons p other)
  obtain k v where p: "p = (k, v)" by (cases p)
  from Cons.prems have k: "k \<notin> fst ` set other" and dist: "distinct (map fst other)"
    by (auto simp: p)
  have fresh: "map_of other k = None"
    using k by (simp add: map_of_eq_None_iff)
  have "map_of (fold (\<lambda>(k, v) acc. dict_set acc k v) (p # other) d)
      = (map_of d)(k \<mapsto> v) ++ map_of other"
    by (simp add: p Cons.IH [OF dist] map_of_dict_set fun_upd_def)
  also have "\<dots> = map_of d ++ map_of (p # other)"
    using fresh by (auto simp: p fun_eq_iff map_add_def split: option.splits)
  finally show ?case .
qed

lemma map_of_dict_update:
  "distinct (map fst other) \<Longrightarrow> map_of (dict_update d other) = map_of d ++ map_of other"
  by (simp add: dict_update_def fold_dict_set_map_of)

lemma json_load_append:
  "distinct (map fst (acc @ s)) \<Longrightarrow> \<forall>(k, v) \<in> set s. json_native v \<Longrightarrow>
     fold (\<lambda>(k, j) acc. dict_set acc k (json_decode j)) (json_dump s) acc = acc @ s"
proof (induction s arbitrary: acc)
  case Nil
  then show ?case by (simp add: json_dump_def)
next
  case (Cons p s)
  obtain k v where p: "p = (k, v)" by (cases p)
  have new: "k \<notin> fst ` set acc"
    using Cons.prems(1) by (auto simp: p)
  have nat: "json_native v" and rest: "\<forall>(k, v) \<in> set s. json_native v"
    using Cons.prems(2) by (auto simp: p)
  have dist: "distinct (map fst ((acc @ [(k, v)]) @ s))"
    using Cons.prems(1) by (simp add: p)
  have "fold (\<lambda>(k, j) acc. dict_set acc k (json_decode j)) (json_dump (p # s)) acc
      = fold (\<lambda>(k, j) acc. dict_set acc k (json_decode j)) (json_dump s) (acc @ [(k, v)])"
    using new nat by (simp add: p json_dump_def json_roundtrip dict_set_new)
  also have "\<dots> = (acc @ [(k, v)]) @ s"
    using dist rest by (rule Cons.IH)
  finally show ?case by (simp add: p)
qed

lemma json_load_dump:
  "distinct (map fst s) \<Longrightarrow> \<forall>(k, v) \<in> set s. json_native v \<Longrightarrow> json_load (json_dump s) = s"
  using json_load_append [of "[]" s] by (simp add: json_load_def)

lemma saved_json:
  "settings_json (snd (save_settings st JsonWritten wc s)) = Document (json_dump s)"
  by (simp add: save_settings_def save_settings_to_csv_def split: sum.splits)

text \<open>
  Claim C9. Let \<open>s\<close> be a settings dictionary (distinct keys) whose values are \<^verbatim>\<open>None\<close>,
  booleans, numbers, strings or lists of such. When the write of the settings file
  succeeds, \<^verbatim>\<open>save_settings\<close> returns normally, whatever happens to the legacy file, and
  \<^verbatim>\<open>load_settings\<close> on the store it leaves returns the defaults updated with \<open>s\<close>: as a
  mapping, the defaults overridden by \<open>s\<close>. When every default key is a key of \<open>s\<close> the
  reloaded dictionary equals \<open>s\<close>.
\<close>

theorem settings_roundtrip:
  assumes "distinct (map fst s)" and "\<forall>(k, v) \<in> set s. json_native v"
  shows "fst (save_settings st JsonWritten wc s) = Inr () \<and>
    load_settings from_csv (snd (save_settings st JsonWritten wc s)) = dict_update default_settings s \<and>
    map_of (load_settings from_csv (snd (save_settings st JsonWritten wc s)))
      = map_of default_settings ++ map_of s \<and>
    (fst ` set default_settings \<subseteq> fst ` set s \<longrightarrow>
       map_of (load_settings from_csv (snd (save_settings st JsonWritten wc s))) = map_of s)"
proof -
  let ?st = "snd (save_settings st JsonWritten wc s)"
  have ok: "fst (save_settings st JsonWritten wc s) = Inr ()"
    by (simp add: save_settings_def)
  have loaded: "load_settings from_csv ?st = dict_update default_settings s"
    by (simp add: load_settings_def saved_json json_load_dump [OF assms])
  have merged: "map_of (load_settings from_csv ?st) = map_of default_settings ++ map_of s"
    unfolding loaded using assms(1) by (rule map_of_dict_update)
  have full: "fst ` set default_settings \<subseteq> fst ` set s \<longrightarrow>
       map_of (load_settings from_csv ?st) = map_of s"
  proof
    assume sub: "fst ` set default_settings \<subseteq> fst ` set s"
    have "map_of default_settings ++ map_of s = map_of s"
    proof (rule ext)
      fix k
      show "(map_of default_settings ++ map_of s) k = map_of s k"
      proof (cases "map_of s k")
        case None
        then have "k \<notin> fst ` set s" by (simp add: map_of_eq_None_iff)
        then have "k \<notin> fst ` set default_settings" using sub by auto
        then have "map_of default_settings k = None" by (simp add: map_of_eq_None_iff)
        then show ?thesis using None by (simp add: map_add_def)
      next
        case (Some v)
        then show ?thesis by (simp add: map_add_def)
      qed
    qed
    then show "map_of (load_settings from_csv ?st) = map_of s"
      by (simp add: merged)
  qed
  show ?thesis using ok loaded merged full by blast
qed

lemma default_keys_distinct: "distinct (map fst default_settings)"
  by (simp add: default_settings_def)

theorem settings_roundtrip_witness:
  "map_of (load_settings [] (snd (save_settings fresh_settings_store JsonWritten WriteOk short_settings)))
     = map_of default_settings ++ map_of short_settings \<and>
   map_of (load_settings [] (snd (save_settings fresh_settings_store JsonWritten WriteOk full_settings)))
     = map_of full_settings \<and>
   map_of full_settings ''theme'' = Some (PStr ''light'')"
proof -
  have short: "distinct (map fst short_settings)" "\<forall>(k, v) \<in> set short_settings. json_native v"
    by (simp_all add: short_settings_def)
  have full: "distinct (map fst full_settings)" "\<forall>(k, v) \<in> set full_settings. json_native v"
    "fst ` set default_settings \<subseteq> fst ` set full_settings"
    by (simp_all add: full_settings_def default_settings_def)
  have theme: "map_of full_settings ''theme'' = Some (PStr ''light'')"
    by (simp add: full_settings_def default_settings_def)
  show ?thesis
    using settings_roundtrip [OF short, of fresh_settings_store WriteOk "[]"]
      settings_roundtrip [OF full(1,2), of fresh_settings_store WriteOk "[]"] full(3) theme
    by blast
qed

end
